theory Spec2Isabelle
  imports Complex_Main "HOL-Library.Sublist" "HOL-Library.Multiset" "HOL-Library.Char_ord"
    "HOL-Library.List_Lexorder"
begin

section \<open>Election margins dashboard (election\_margins\_app.py)\<close>

text \<open>
  Margins are Python/NumPy floats. In the sample generator they are modelled as exact reals:
  the model keeps the comparisons, the clipping and the decimal rounding of the source and
  leaves the binary rounding error of the generator's own arithmetic out. Where the script
  computes with the stored margins (the change column of line 208), the float64 rounding of
  the result is part of the model.
\<close>

subsection \<open>The NumPy global random generator\<close>

text \<open>
  \<^verbatim>\<open>np.random\<close> is library code. It is a parameter of the model: a state type \<open>'g\<close> (the
  hidden global generator state) and one state-passing function per call the script makes.
  \<^verbatim>\<open>np.random.seed(s)\<close> replaces the global state by one that depends on \<open>s\<close> only.
\<close>

record 'g np_random =
  random_seed :: "nat \<Rightarrow> 'g"
  random_choice :: "string list \<Rightarrow> 'g \<Rightarrow> string \<times> 'g"
  random_uniform :: "real \<Rightarrow> real \<Rightarrow> 'g \<Rightarrow> real \<times> 'g"
  random_normal :: "real \<Rightarrow> real \<Rightarrow> 'g \<Rightarrow> real \<times> 'g"
  random_randint :: "int \<Rightarrow> int \<Rightarrow> 'g \<Rightarrow> int \<times> 'g"

text \<open>
  The documented contract of \<^verbatim>\<open>np.random.randint(low, high)\<close>: an integer of the half-open
  interval from \<open>low\<close> (inclusive) to \<open>high\<close> (exclusive).
\<close>

definition randint_in_range :: "'g np_random \<Rightarrow> bool" where
  "randint_in_range R \<longleftrightarrow>
     (\<forall>low high g. low < high \<longrightarrow>
        low \<le> fst (random_randint R low high g) \<and> fst (random_randint R low high g) < high)"

text \<open>
  A small concrete generator (a linear congruential one on \<open>nat\<close> states) that meets the
  contract; it instantiates the parameter wherever a concrete run is wanted.
\<close>

definition lcg_step :: "nat \<Rightarrow> nat" where
  "lcg_step s = (1103515245 * s + 12345) mod 2147483648"

definition lcg_unit :: "nat \<Rightarrow> real" where
  "lcg_unit s = real (s mod 2147483648) / 2147483648"

definition lcg :: "nat np_random" where
  "lcg = \<lparr> random_seed = (\<lambda>s. s mod 2147483648),
           random_choice = (\<lambda>a s. (a ! (s mod length a), lcg_step s)),
           random_uniform = (\<lambda>low high s. (low + (high - low) * lcg_unit s, lcg_step s)),
           random_normal = (\<lambda>loc scale s. (loc + scale * (6 * lcg_unit s - 3), lcg_step s)),
           random_randint = (\<lambda>low high s. (low + int s mod (high - low), lcg_step s)) \<rparr>"

subsection \<open>Records, clipping, rounding, string formatting\<close>

record county_record =
  county :: string
  state :: string
  margin_2020 :: real
  margin_2024 :: real
  total_votes :: int
  party :: string

definition states :: "string list" where
  "states = [''Texas'', ''California'', ''Florida'', ''Pennsylvania'', ''Ohio'', ''Georgia'',
             ''Michigan'', ''Arizona'']"

text \<open>\<^verbatim>\<open>np.clip(a, a_min, a_max)\<close> is \<^verbatim>\<open>minimum(a_max, maximum(a, a_min))\<close>.\<close>

definition clip :: "real \<Rightarrow> real \<Rightarrow> real \<Rightarrow> real" where
  "clip a a_min a_max = min a_max (max a a_min)"

text \<open>Rounding to the nearest integer, ties to the even one (\<^verbatim>\<open>rint\<close>).\<close>

definition rint :: "real \<Rightarrow> int" where
  "rint x =
     (let f = \<lfloor>x\<rfloor>; d = x - of_int f
      in if d < 1 / 2 then f
         else if 1 / 2 < d then f + 1
         else if even f then f else f + 1)"

text \<open>\<^verbatim>\<open>round(x, ndigits)\<close> on a NumPy float: scale, round half to even, scale back.\<close>

definition py_round :: "real \<Rightarrow> nat \<Rightarrow> real" where
  "py_round x ndigits = of_int (rint (x * 10 ^ ndigits)) / 10 ^ ndigits"

text \<open>\<^verbatim>\<open>str(n)\<close> for a natural number: its decimal digits; 48 is the code of the digit zero.\<close>

fun str_nat :: "nat \<Rightarrow> string" where
  "str_nat n =
     (if n < 10 then [char_of (48 + n)]
      else str_nat (n div 10) @ [char_of (48 + n mod 10)])"

declare str_nat.simps [simp del]

text \<open>The value of a decimal digit string, used to show that \<open>str_nat\<close> is injective.\<close>

definition digits_value :: "string \<Rightarrow> nat" where
  "digits_value s = foldl (\<lambda>a c. 10 * a + (of_char c - 48)) 0 s"

subsection \<open>generate\_sample\_data\<close>

text \<open>
  A \<^verbatim>\<open>for i in range(...)\<close> loop whose body draws from the generator and appends one record
  to \<^verbatim>\<open>data\<close>: the list and the generator state are threaded through the iterations.
\<close>

primrec for_append ::
  "(nat \<Rightarrow> 'g \<Rightarrow> 'a \<times> 'g) \<Rightarrow> nat list \<Rightarrow> 'a list \<Rightarrow> 'g \<Rightarrow> 'a list \<times> 'g" where
  "for_append body [] data g = (data, g)"
| "for_append body (i # rest) data g =
     (case body i g of (x, g') \<Rightarrow> for_append body rest (data @ [x]) g')"

text \<open>The body of the first loop (lines 21 to 37): the draws happen in source order.\<close>

definition republican_county :: "'g np_random \<Rightarrow> nat \<Rightarrow> 'g \<Rightarrow> county_record \<times> 'g" where
  "republican_county R i g0 =
     (case random_choice R states g0 of (state', g1) \<Rightarrow>
      case random_uniform R 5 85 g1 of (base_margin, g2) \<Rightarrow>
      case random_normal R 0 3 g2 of (noise_2020, g3) \<Rightarrow>
      case random_normal R 0 4 g3 of (noise_2024, g4) \<Rightarrow>
      case random_randint R 100 80000 g4 of (votes, g5) \<Rightarrow>
        (\<lparr> county = ''County '' @ str_nat (i + 1),
           state = state',
           margin_2020 = py_round (clip (base_margin + noise_2020) 1 95) 1,
           margin_2024 = py_round (clip (base_margin + noise_2024) 1 95) 1,
           total_votes = votes,
           party = ''Republican'' \<rparr>, g5))"

text \<open>The body of the second loop (lines 41 to 57).\<close>

definition democrat_county :: "'g np_random \<Rightarrow> nat \<Rightarrow> 'g \<Rightarrow> county_record \<times> 'g" where
  "democrat_county R i g0 =
     (case random_choice R states g0 of (state', g1) \<Rightarrow>
      case random_uniform R (- 85) (- 5) g1 of (base_margin, g2) \<Rightarrow>
      case random_normal R 0 3 g2 of (noise_2020, g3) \<Rightarrow>
      case random_normal R 0 4 g3 of (noise_2024, g4) \<Rightarrow>
      case random_randint R 100 80000 g4 of (votes, g5) \<Rightarrow>
        (\<lparr> county = ''County '' @ str_nat (i + 1),
           state = state',
           margin_2020 = py_round (clip (base_margin + noise_2020) (- 95) (- 1)) 1,
           margin_2024 = py_round (clip (base_margin + noise_2024) (- 95) (- 1)) 1,
           total_votes = votes,
           party = ''Democrat'' \<rparr>, g5))"

text \<open>
  The function takes the global generator state it finds and returns the records together
  with the state it leaves behind. Its first statement reseeds the generator with 42.
\<close>

definition generate_sample_data :: "'g np_random \<Rightarrow> 'g \<Rightarrow> county_record list \<times> 'g" where
  "generate_sample_data R g_before =
     (let g = random_seed R 42 in
      case for_append (republican_county R) [0..<120] [] g of (data, g') \<Rightarrow>
        for_append (democrat_county R) [120..<240] data g')"

subsection \<open>Predicates used to state the properties of the generator\<close>

text \<open>The record built at index \<open>i\<close> by either loop body, whatever the generator does.\<close>

definition republican_shape :: "nat \<Rightarrow> county_record \<Rightarrow> bool" where
  "republican_shape i r \<longleftrightarrow>
     county r = ''County '' @ str_nat (i + 1) \<and> party r = ''Republican'' \<and>
     1 \<le> margin_2020 r \<and> margin_2020 r \<le> 95 \<and> 1 \<le> margin_2024 r \<and> margin_2024 r \<le> 95"

definition democrat_shape :: "nat \<Rightarrow> county_record \<Rightarrow> bool" where
  "democrat_shape i r \<longleftrightarrow>
     county r = ''County '' @ str_nat (i + 1) \<and> party r = ''Democrat'' \<and>
     - 95 \<le> margin_2020 r \<and> margin_2020 r \<le> - 1 \<and> - 95 \<le> margin_2024 r \<and> margin_2024 r \<le> - 1"

definition votes_in_range :: "county_record \<Rightarrow> bool" where
  "votes_in_range r \<longleftrightarrow> 100 \<le> total_votes r \<and> total_votes r \<le> 79999"

definition generated_republican :: "nat \<Rightarrow> county_record \<Rightarrow> bool" where
  "generated_republican i r \<longleftrightarrow> republican_shape i r \<and> votes_in_range r"

definition generated_democrat :: "nat \<Rightarrow> county_record \<Rightarrow> bool" where
  "generated_democrat i r \<longleftrightarrow> democrat_shape i r \<and> votes_in_range r"

subsection \<open>The filter step (lines 82 to 86)\<close>

text \<open>
  The script is top-level code: a name is looked up in the module's global namespace when
  the statement that reads it runs, and a name that no earlier statement has bound (and
  that is no builtin) raises \<^verbatim>\<open>NameError\<close>. The namespace is a map from names to values.
\<close>

datatype error = NameError string | TypeError string

datatype pyval =
    PyObject string
  | PyFrame "county_record list"
  | PyStr string
  | PyInt int
  | PyBool bool
  | PyList "string list"

type_synonym namespace = "string \<rightharpoonup> pyval"

definition load_name :: "namespace \<Rightarrow> string \<Rightarrow> error + pyval" where
  "load_name ns name = (case ns name of None \<Rightarrow> Inl (NameError name) | Some v \<Rightarrow> Inr v)"

text \<open>
  The names bound when line 82 is reached: the imports, the function, \<^verbatim>\<open>df\<close> and the four
  sidebar widgets' values (lines 68 to 79). No statement of the script binds
  \<^verbatim>\<open>party_filter\<close>.
\<close>

definition script_globals ::
  "county_record list \<Rightarrow> string \<Rightarrow> int \<Rightarrow> bool \<Rightarrow> bool \<Rightarrow> namespace" where
  "script_globals df selected_state min_votes show_republican show_democrat =
     [''st'' \<mapsto> PyObject ''streamlit'', ''pd'' \<mapsto> PyObject ''pandas'',
      ''np'' \<mapsto> PyObject ''numpy'', ''go'' \<mapsto> PyObject ''plotly.graph_objects'',
      ''generate_sample_data'' \<mapsto> PyObject ''function'',
      ''df'' \<mapsto> PyFrame df,
      ''selected_state'' \<mapsto> PyStr selected_state,
      ''min_votes'' \<mapsto> PyInt min_votes,
      ''show_republican'' \<mapsto> PyBool show_republican,
      ''show_democrat'' \<mapsto> PyBool show_democrat]"

text \<open>
  Lines 82 to 86. \<^verbatim>\<open>df.copy()\<close> and the boolean-mask selections build new frames, the
  source frame is not touched. Line 86 reads \<^verbatim>\<open>party_filter\<close>.
\<close>

definition apply_filters ::
  "county_record list \<Rightarrow> string \<Rightarrow> int \<Rightarrow> bool \<Rightarrow> bool \<Rightarrow> error + county_record list" where
  "apply_filters df selected_state min_votes show_republican show_democrat =
     (let filtered_df = df;
          filtered_df = (if selected_state \<noteq> ''All''
                         then filter (\<lambda>r. state r = selected_state) filtered_df
                         else filtered_df);
          filtered_df = filter (\<lambda>r. min_votes \<le> total_votes r) filtered_df;
          ns = (script_globals df selected_state min_votes show_republican show_democrat)
                 (''filtered_df'' \<mapsto> PyFrame filtered_df)
      in case load_name ns ''party_filter'' of
           Inl e \<Rightarrow> Inl e
         | Inr (PyList party_filter) \<Rightarrow>
             Inr (filter (\<lambda>r. party r \<in> set party_filter) filtered_df)
         | Inr _ \<Rightarrow> Inl (TypeError ''only list-like objects are allowed to be passed to isin()''))"

subsection \<open>Change in margin and the two top-five tables (lines 208 to 219)\<close>

text \<open>
  Line 208 adds the column \<^verbatim>\<open>change\<close> to the filtered frame. The two margin columns
  hold float64 values and the subtraction is the float64 one: IEEE 754 returns the exact
  difference of the two stored values, rounded to the nearest double. The rounding is the
  parameter \<open>rnd\<close> of the model; the margins of a frame are the reals that the stored
  doubles are.
\<close>

record county_change = county_record +
  change :: real

definition with_change :: "(real \<Rightarrow> real) \<Rightarrow> county_record list \<Rightarrow> county_change list" where
  "with_change rnd filtered_df =
     map (\<lambda>r. \<lparr> county = county r, state = state r, margin_2020 = margin_2020 r,
                margin_2024 = margin_2024 r, total_votes = total_votes r, party = party r,
                change = rnd (margin_2024 r - margin_2020 r) \<rparr>) filtered_df"

text \<open>
  The rounding of IEEE 754 binary64, to nearest with ties to even, for the finite range:
  a double has 53 significant bits, so in the binade of exponent \<open>e\<close> the doubles are the
  multiples of \<open>2 ^ (e - 52)\<close>; below the least normal exponent -1022 the spacing stays
  that of the subnormals. Overflow to infinity is not part of it.
\<close>

definition pow2 :: "int \<Rightarrow> real" where
  "pow2 e = (if 0 \<le> e then 2 ^ nat e else 1 / 2 ^ nat (- e))"

definition binary64 :: "real \<Rightarrow> real" where
  "binary64 x =
     (if x = 0 then 0
      else let e = max \<lfloor>log 2 \<bar>x\<bar>\<rfloor> (- 1022); ulp = pow2 (e - 52)
           in of_int (rint (x / ulp)) * ulp)"

text \<open>
  \<^verbatim>\<open>DataFrame.nlargest(n, column)\<close> and \<^verbatim>\<open>nsmallest\<close> are pandas library code, modelled
  after their documentation: the first \<open>n\<close> rows of the frame ordered by the column,
  descending (ascending for \<^verbatim>\<open>nsmallest\<close>), where the default \<^verbatim>\<open>keep='first'\<close> lets
  the earlier of two rows with equal values come first. \<open>sort_key\<close> is the stable
  insertion sort of the HOL library.
\<close>

definition nlargest :: "nat \<Rightarrow> ('a \<Rightarrow> real) \<Rightarrow> 'a list \<Rightarrow> 'a list" where
  "nlargest n col df = take n (sort_key (\<lambda>r. - col r) df)"

definition nsmallest :: "nat \<Rightarrow> ('a \<Rightarrow> real) \<Rightarrow> 'a list \<Rightarrow> 'a list" where
  "nsmallest n col df = take n (sort_key col df)"

text \<open>
  The column selection of lines 213 and 218: a row of the displayed table is the tuple
  (county, state, margin\_2020, margin\_2024, change).
\<close>

type_synonym shift_row = "string \<times> string \<times> real \<times> real \<times> real"

definition shift_columns :: "county_change \<Rightarrow> shift_row" where
  "shift_columns r = (county r, state r, margin_2020 r, margin_2024 r, change r)"

definition top_r :: "county_change list \<Rightarrow> shift_row list" where
  "top_r filtered_df = map shift_columns (nlargest 5 change filtered_df)"

definition top_d :: "county_change list \<Rightarrow> shift_row list" where
  "top_d filtered_df = map shift_columns (nsmallest 5 change filtered_df)"

text \<open>Ten literal records with known changes (2, 5, 2, -1, 5, 0, 7, -3, 5, -3).\<close>

definition example_county :: "string \<Rightarrow> real \<Rightarrow> real \<Rightarrow> county_record" where
  "example_county name m20 m24 =
     \<lparr> county = name, state = ''Ohio'', margin_2020 = m20, margin_2024 = m24,
       total_votes = 1000, party = ''Republican'' \<rparr>"

definition example_counties :: "county_record list" where
  "example_counties =
     [example_county ''A'' 10 12, example_county ''B'' 20 25, example_county ''C'' 30 32,
      example_county ''D'' 40 39, example_county ''E'' 50 55, example_county ''F'' 60 60,
      example_county ''G'' 70 77, example_county ''H'' 80 77, example_county ''I'' 15 20,
      example_county ''J'' 25 22]"

text \<open>
  Two rows whose decimal margins differ by 6.4 both times (36.9 to 30.5 and -1.5 to -7.9),
  with the doubles that store these decimals.
\<close>

definition near_tie_counties :: "county_record list" where
  "near_tie_counties =
     [example_county ''County 80'' (binary64 (369 / 10)) (binary64 (61 / 2)),
      example_county ''County 216'' (binary64 (- (3 / 2))) (binary64 (- (79 / 10)))]"

section \<open>Electricity, emissions and GDP dashboard (app\_challenge3.py)\<close>

text \<open>
  A data frame is the list of its rows, a row a record with one field per column. A cell of
  a numeric column is \<open>Some v\<close> or \<open>None\<close>, the missing value (NaN) of pandas. The frames
  read from the network are inputs of the model: the two CSV files with their columns, and
  the outcome of the World Bank request.
\<close>

subsection \<open>Float64 results\<close>

text \<open>
  A float64 division can leave the finite numbers: the quotient of a non-zero number by zero
  is an infinity, and zero by zero is NaN, which pandas treats as the missing value. A
  finite quotient is the exact one rounded by \<open>rnd\<close>, the IEEE rounding to the nearest
  double (a parameter; \<open>binary64\<close> is the concrete one). Zero divisors are taken as positive
  zero, and overflow of a finite quotient is not modelled.
\<close>

datatype float64 = Fin real | PosInf | NegInf | NaN

definition float_div :: "(real \<Rightarrow> real) \<Rightarrow> real \<Rightarrow> real \<Rightarrow> float64" where
  "float_div rnd x y =
     (if y = 0 then (if x = 0 then NaN else if 0 < x then PosInf else NegInf)
      else Fin (rnd (x / y)))"

subsection \<open>The tables\<close>

text \<open>The electricity mix of line 172: one row per year and source with its share.\<close>

record mix_row =
  year :: int
  source :: string
  share :: float64

text \<open>The join key of every table: the columns \<^verbatim>\<open>iso_code\<close> and \<^verbatim>\<open>year\<close>.\<close>

record keyed =
  iso_code :: "string option"
  year :: int

definition key :: "'a keyed_scheme \<Rightarrow> string option \<times> int" where
  "key r = (iso_code r, year r)"

text \<open>
  The long table of line 118: the identifying columns, the name of the melted column and
  its value (the column \<^verbatim>\<open>value\<close> of the source).
\<close>

record long_row = keyed +
  country :: string
  gdp_percap :: float64
  co2_per_capita :: "real option"
  continent :: "string option"
  electricity_generation :: "real option"
  source :: string
  val :: "real option"

text \<open>
  The CO2 table with the columns it has after the renaming of lines 27 to 40. Both
  branches of the renaming give these names: \<^verbatim>\<open>clean_names\<close> turns Entity, Code and Year
  into lower case before entity and code are renamed, the other branch renames the three
  directly.
\<close>

record co2_row = keyed +
  country :: string
  co2_per_capita :: "real option"

text \<open>The GDP table: the three columns both paths of \<^verbatim>\<open>fetch_gdp_or_fallback\<close> select.\<close>

record gdp_row = keyed +
  gdp_percap :: float64

record gdp_frame =
  columns :: "string list"
  rows :: "gdp_row list"

text \<open>
  The frame the World Bank client returns after \<^verbatim>\<open>reset_index()\<close>: the columns economy
  and time and the column of the indicator NY.GDP.PCAP.PP.KD.
\<close>

record wb_row =
  economy :: "string option"
  time :: int
  NY_GDP_PCAP_PP_KD :: "real option"

text \<open>
  The energy table with the column names it has after the renaming of lines 49 to 59 (the
  nine \<^verbatim>\<open>*_electricity\<close> columns lose their suffix). \<open>energy_sel\<close> holds the thirteen columns
  line 95 selects for the merge; \<open>energy_row\<close> adds the two columns the GDP fallback reads.
  The merged rows extend \<open>energy_sel\<close> column by column, as the two merges and the
  continent assignment do.
\<close>

record energy_sel = keyed +
  country :: string
  electricity_generation :: "real option"
  biofuel :: "real option"
  coal :: "real option"
  gas :: "real option"
  hydro :: "real option"
  nuclear :: "real option"
  oil :: "real option"
  other_renewable :: "real option"
  solar :: "real option"
  wind :: "real option"

record energy_row = energy_sel +
  gdp :: "real option"
  population :: "real option"

record merged_row = energy_sel +
  gdp_percap :: float64

record combined_row = merged_row +
  co2_per_capita :: "real option"

record enriched_row = combined_row +
  continent :: "string option"

subsection \<open>Harmonization (lines 41 and 60)\<close>

text \<open>Line 41: \<^verbatim>\<open>co2 = co2[co2["year"] >= 1990]\<close>.\<close>

definition harmonize_co2 :: "co2_row list \<Rightarrow> co2_row list" where
  "harmonize_co2 co2_df = filter (\<lambda>r. 1990 \<le> year r) co2_df"

text \<open>Line 60: \<^verbatim>\<open>energy.query("year >= 1990").dropna(subset=["iso_code"])\<close>.\<close>

definition harmonize_energy :: "energy_row list \<Rightarrow> energy_row list" where
  "harmonize_energy energy_df =
     filter (\<lambda>r. iso_code r \<noteq> None) (filter (\<lambda>r. 1990 \<le> year r) energy_df)"

subsection \<open>fetch\_gdp\_or\_fallback (lines 65 to 89)\<close>

text \<open>
  The outcome of the request of lines 67 to 74 is \<open>Inr\<close> of the frame, or \<open>Inl\<close> of the
  message of the exception. Every exception raised inside the \<^verbatim>\<open>try\<close> block is caught by
  line 82, also one raised by the renaming, the \<^verbatim>\<open>dropna\<close> or the column selection on a
  response that lacks a column: that is the \<open>Inl\<close> case as well. \<^verbatim>\<open>st.warning\<close> shows a
  message and returns; the messages shown are the first component of the result.
\<close>

definition gdp_columns :: "string list" where
  "gdp_columns = [''iso_code'', ''year'', ''gdp_percap'']"

definition fallback_warning :: "string \<Rightarrow> string" where
  "fallback_warning e =
     ''World Bank API unavailable ('' @ e @ ''). '' @
     ''Falling back to GDP per capita computed from OWID energy data (gdp/population).''"

text \<open>Lines 75 to 81: rename, drop the rows without a value, select three columns.\<close>

definition primary_gdp :: "wb_row list \<Rightarrow> gdp_row list" where
  "primary_gdp wb =
     concat (map (\<lambda>w. case NY_GDP_PCAP_PP_KD w of
                         None \<Rightarrow> []
                       | Some v \<Rightarrow> [\<lparr> iso_code = economy w, year = time w,
                                      gdp_row.gdp_percap = Fin v \<rparr>]) wb)"

text \<open>
  Lines 87 to 89: the rows of the energy table in which none of the four columns is missing
  (the year column has no missing value in the model), each with the float64 quotient of gdp
  by population.
\<close>

definition fallback_gdp :: "(real \<Rightarrow> real) \<Rightarrow> energy_row list \<Rightarrow> gdp_row list" where
  "fallback_gdp rnd energy_df_for_fallback =
     concat (map (\<lambda>r. case (iso_code r, gdp r, population r) of
                         (Some c, Some g, Some p) \<Rightarrow>
                            [\<lparr> iso_code = Some c, year = year r,
                               gdp_row.gdp_percap = float_div rnd g p \<rparr>]
                       | _ \<Rightarrow> []) energy_df_for_fallback)"

definition fetch_gdp_or_fallback ::
  "(real \<Rightarrow> real) \<Rightarrow> string + wb_row list \<Rightarrow> energy_row list \<Rightarrow> string list \<times> gdp_frame" where
  "fetch_gdp_or_fallback rnd wb_response energy_df_for_fallback =
     (case wb_response of
        Inr wb \<Rightarrow> ([], \<lparr> columns = gdp_columns, rows = primary_gdp wb \<rparr>)
      | Inl e \<Rightarrow> ([fallback_warning e],
                  \<lparr> columns = gdp_columns, rows = fallback_gdp rnd energy_df_for_fallback \<rparr>))"

subsection \<open>The two inner joins (lines 94 to 110)\<close>

text \<open>
  \<^verbatim>\<open>pd.merge(left, right, on=["iso_code", "year"], how="inner")\<close> is pandas library code,
  modelled after its documentation: one output row for every pair of a left and a right row
  with equal keys, in the order of the left rows, carrying the columns of both. A missing
  key equals a missing key, as in pandas.
\<close>

definition merge_inner ::
  "('a keyed_scheme \<Rightarrow> 'b keyed_scheme \<Rightarrow> 'c) \<Rightarrow> 'a keyed_scheme list \<Rightarrow> 'b keyed_scheme list \<Rightarrow> 'c list" where
  "merge_inner join left right =
     concat (map (\<lambda>l. map (join l) (filter (\<lambda>r. key r = key l) right)) left)"

definition with_gdp :: "energy_row \<Rightarrow> gdp_row \<Rightarrow> merged_row" where
  "with_gdp e g = energy_sel.extend (energy_sel.truncate e) (merged_row.fields (gdp_row.gdp_percap g))"

definition with_co2 :: "merged_row \<Rightarrow> co2_row \<Rightarrow> combined_row" where
  "with_co2 m c = merged_row.extend m (combined_row.fields (co2_row.co2_per_capita c))"

definition merge_datasets :: "energy_row list \<Rightarrow> gdp_row list \<Rightarrow> co2_row list \<Rightarrow> combined_row list" where
  "merge_datasets energy_df gdp_df co2_df =
     (let merged = merge_inner with_gdp energy_df gdp_df
      in merge_inner with_co2 merged co2_df)"

subsection \<open>Continent and the long table (lines 113 to 133)\<close>

text \<open>
  \<^verbatim>\<open>coco.convert(..., to="continent", not_found=None)\<close> is the classifier of the
  country\_converter library, the parameter \<open>continent_of\<close>.
\<close>

definition add_continent :: "(string \<Rightarrow> string option) \<Rightarrow> combined_row list \<Rightarrow> enriched_row list" where
  "add_continent continent_of combined =
     map (\<lambda>r. combined_row.extend r (enriched_row.fields (continent_of (country r))))
       combined"

text \<open>The nine melted columns, in the order of \<^verbatim>\<open>value_vars\<close>.\<close>

definition value_vars :: "(string \<times> (enriched_row \<Rightarrow> real option)) list" where
  "value_vars =
     [(''biofuel'', biofuel), (''coal'', coal), (''gas'', gas), (''hydro'', hydro),
      (''nuclear'', nuclear), (''oil'', oil), (''other_renewable'', other_renewable),
      (''solar'', solar), (''wind'', wind)]"

definition long_of :: "string \<Rightarrow> real option \<Rightarrow> enriched_row \<Rightarrow> long_row" where
  "long_of name v r =
     \<lparr> iso_code = iso_code r, year = year r,
       long_row.country = country r,
       long_row.gdp_percap = gdp_percap r,
       long_row.co2_per_capita = co2_per_capita r,
       long_row.continent = continent r,
       long_row.electricity_generation = electricity_generation r,
       source = name, val = v \<rparr>"

text \<open>\<^verbatim>\<open>melt\<close> stacks the columns: all rows for the first melted column, then the second.\<close>

definition melt :: "enriched_row list \<Rightarrow> long_row list" where
  "melt combined = concat (map (\<lambda>(name, col). map (\<lambda>r. long_of name (col r) r) combined) value_vars)"

definition long_energy :: "enriched_row list \<Rightarrow> long_row list" where
  "long_energy combined = filter (\<lambda>r. val r \<noteq> None) (melt combined)"

text \<open>\<^verbatim>\<open>load_data\<close>: the warnings shown, the combined table and the long table.\<close>

definition load_data ::
  "(real \<Rightarrow> real) \<Rightarrow> (string \<Rightarrow> string option) \<Rightarrow> co2_row list \<Rightarrow> energy_row list \<Rightarrow>
     string + wb_row list \<Rightarrow> string list \<times> enriched_row list \<times> long_row list" where
  "load_data rnd continent_of co2_csv energy_csv wb_response =
     (let co2_df = harmonize_co2 co2_csv;
          energy_df = harmonize_energy energy_csv;
          (warnings, gdp_df) = fetch_gdp_or_fallback rnd wb_response energy_df;
          combined = add_continent continent_of (merge_datasets energy_df (rows gdp_df) co2_df)
      in (warnings, combined, long_energy combined))"

subsection \<open>The electricity mix (lines 156 to 179)\<close>

text \<open>
  Line 156: the rows of the long table for the selected country whose year lies in the
  selected range; \<^verbatim>\<open>between\<close> includes both ends.
\<close>

definition energy_long_f :: "long_row list \<Rightarrow> string \<Rightarrow> int \<times> int \<Rightarrow> long_row list" where
  "energy_long_f energy_long selected year_range =
     filter (\<lambda>r. long_row.country r = selected \<and> fst year_range \<le> year r \<and> year r \<le> snd year_range)
       energy_long"

text \<open>
  \<^verbatim>\<open>pivot_table(index="year", columns="source", values="value", aggfunc="sum")\<close>: one row
  per year and one column per source, both sorted; the cell of a year and a source is the
  sum of the values of the rows with that year and source, and is missing when there is no
  such row. Sums skip missing values. The float64 summation of NumPy is the parameter
  \<open>fsum\<close>.
\<close>

definition pivot_index :: "long_row list \<Rightarrow> int list" where
  "pivot_index df = sort (remdups (map year df))"

definition pivot_columns :: "long_row list \<Rightarrow> string list" where
  "pivot_columns df = sort (remdups (map source df))"

definition present :: "real option list \<Rightarrow> real list" where
  "present cells = concat (map (\<lambda>c. case c of None \<Rightarrow> [] | Some v \<Rightarrow> [v]) cells)"

definition pivot_cell :: "(real list \<Rightarrow> real) \<Rightarrow> long_row list \<Rightarrow> int \<Rightarrow> string \<Rightarrow> real option" where
  "pivot_cell fsum df y s =
     (case filter (\<lambda>r. year r = y \<and> source r = s) df of
        [] \<Rightarrow> None
      | g \<Rightarrow> Some (fsum (present (map val g))))"

definition pivot_row ::
  "(real list \<Rightarrow> real) \<Rightarrow> long_row list \<Rightarrow> int \<Rightarrow> (string \<times> real option) list" where
  "pivot_row fsum df y = map (\<lambda>s. (s, pivot_cell fsum df y s)) (pivot_columns df)"

definition pivot_table ::
  "(real list \<Rightarrow> real) \<Rightarrow> long_row list \<Rightarrow> (int \<times> (string \<times> real option) list) list" where
  "pivot_table fsum df = map (\<lambda>y. (y, pivot_row fsum df y)) (pivot_index df)"

text \<open>
  \<^verbatim>\<open>.apply(lambda r: r / r.sum(), axis=1)\<close>: every cell of a row divided by the sum of the
  row's cells that are present; a missing cell stays missing (NaN).
\<close>

definition row_sum :: "(real list \<Rightarrow> real) \<Rightarrow> (string \<times> real option) list \<Rightarrow> real" where
  "row_sum fsum r = fsum (present (map snd r))"

definition normalise ::
  "(real \<Rightarrow> real) \<Rightarrow> (real list \<Rightarrow> real) \<Rightarrow> (string \<times> real option) list \<Rightarrow> (string \<times> float64) list" where
  "normalise rnd fsum r =
     map (\<lambda>(s, c). (s, case c of None \<Rightarrow> NaN | Some v \<Rightarrow> float_div rnd v (row_sum fsum r))) r"

text \<open>
  \<^verbatim>\<open>.reset_index().melt(id_vars="year", var_name="source", value_name="share")\<close>: the
  columns are stacked, all years for the first source, then all years for the second.
\<close>

definition share_of :: "(string \<times> float64) list \<Rightarrow> string \<Rightarrow> float64" where
  "share_of r s = (case map_of r s of None \<Rightarrow> NaN | Some x \<Rightarrow> x)"

definition melt_shares :: "string list \<Rightarrow> (int \<times> (string \<times> float64) list) list \<Rightarrow> mix_row list" where
  "melt_shares cols table =
     concat (map (\<lambda>s. map (\<lambda>(y, r). \<lparr> mix_row.year = y, mix_row.source = s, share = share_of r s \<rparr>)
                       table) cols)"

text \<open>The whole chain of lines 172 to 179; the final \<^verbatim>\<open>dropna()\<close> removes the NaN shares.\<close>

definition mix ::
  "(real \<Rightarrow> real) \<Rightarrow> (real list \<Rightarrow> real) \<Rightarrow> long_row list \<Rightarrow> string \<Rightarrow> int \<times> int \<Rightarrow> mix_row list" where
  "mix rnd fsum energy_long selected year_range =
     (let df = energy_long_f energy_long selected year_range;
          shares = map (\<lambda>(y, r). (y, normalise rnd fsum r)) (pivot_table fsum df)
      in filter (\<lambda>r. share r \<noteq> NaN) (melt_shares (pivot_columns df) shares))"

text \<open>
  A concrete float64 summation: the elements are added from left to right, every partial
  sum rounded.
\<close>

definition float_sum :: "(real \<Rightarrow> real) \<Rightarrow> real list \<Rightarrow> real" where
  "float_sum rnd xs = foldl (\<lambda>a x. rnd (a + x)) 0 xs"

subsection \<open>Small tables for concrete runs\<close>

text \<open>
  Four energy rows (one before the cutoff, one without region code, one with a missing coal
  value, one with population zero), two GDP rows and four CO2 rows (one for a country that
  the other tables lack, one without region code, one before the cutoff).
\<close>

definition energy_example :: "string option \<Rightarrow> string \<Rightarrow> int \<Rightarrow> real option \<Rightarrow> real option \<Rightarrow> energy_row" where
  "energy_example code name y coal_cell pop =
     \<lparr> iso_code = code, year = y, country = name, electricity_generation = Some 377,
       biofuel = Some 4, coal = coal_cell, gas = Some 148, hydro = Some 5, nuclear = Some 85,
       oil = Some 8, other_renewable = None, solar = Some 0, wind = Some 1,
       gdp = Some 3000, population = pop \<rparr>"

definition example_energy :: "energy_row list" where
  "example_energy =
     [energy_example (Some ''GBR'') ''United Kingdom'' 2000 None (Some 60),
      energy_example (Some ''GBR'') ''United Kingdom'' 1985 (Some 200) (Some 56),
      energy_example (Some ''FRA'') ''France'' 2000 (Some 30) (Some 0),
      energy_example None ''Europe'' 2000 (Some 900) None]"

definition example_gdp :: "gdp_row list" where
  "example_gdp =
     [\<lparr> iso_code = Some ''GBR'', year = 2000, gdp_row.gdp_percap = Fin 40000 \<rparr>,
      \<lparr> iso_code = Some ''FRA'', year = 2000, gdp_row.gdp_percap = Fin 41000 \<rparr>]"

definition example_co2 :: "co2_row list" where
  "example_co2 =
     [\<lparr> iso_code = Some ''GBR'', year = 2000, co2_row.country = ''United Kingdom'',
        co2_row.co2_per_capita = Some 9 \<rparr>,
      \<lparr> iso_code = Some ''DEU'', year = 2000, co2_row.country = ''Germany'',
        co2_row.co2_per_capita = Some 10 \<rparr>,
      \<lparr> iso_code = None, year = 2000, co2_row.country = ''World'',
        co2_row.co2_per_capita = Some 4 \<rparr>,
      \<lparr> iso_code = Some ''GBR'', year = 1980, co2_row.country = ''United Kingdom'',
        co2_row.co2_per_capita = Some 11 \<rparr>]"

text \<open>
  One country and one year with the values of coal, gas and hydro given and the other
  sources missing: in \<open>zero_sum_table\<close> coal and gas are zero, in \<open>cancelling_table\<close> they are
  1 and -1, in \<open>unbalanced_table\<close> three large values of both signs add up to 3, and in
  \<open>plain_table\<close> coal is 3 and gas is 1.
\<close>

definition atlantis :: "int \<Rightarrow> real option \<Rightarrow> real option \<Rightarrow> real option \<Rightarrow> enriched_row" where
  "atlantis y coal_cell gas_cell hydro_cell =
     \<lparr> iso_code = Some ''ATL'', year = y, country = ''Atlantis'',
       electricity_generation = Some 0,
       biofuel = None, coal = coal_cell, gas = gas_cell, hydro = hydro_cell, nuclear = None,
       oil = None, other_renewable = None, solar = None, wind = None,
       gdp_percap = Fin 1000, co2_per_capita = Some 1, continent = None \<rparr>"

definition zero_sum_table :: "enriched_row list" where
  "zero_sum_table = [atlantis 2000 (Some 0) (Some 0) None]"

definition cancelling_table :: "enriched_row list" where
  "cancelling_table = [atlantis 2000 (Some 1) (Some (- 1)) None]"



subsection \<open>Error bounds of float64 arithmetic\<close>




section \<open>Properties of the sample generator\<close>

lemma clip_bounds: "a_min \<le> a_max \<Longrightarrow> a_min \<le> clip a a_min a_max \<and> clip a a_min a_max \<le> a_max"
  by (simp add: clip_def)

lemma rint_lower: "of_int a \<le> x \<Longrightarrow> a \<le> rint x"
proof -
  assume "of_int a \<le> x"
  then have "a \<le> \<lfloor>x\<rfloor>" by (simp add: le_floor_iff)
  then show ?thesis by (simp add: rint_def Let_def)
qed

lemma rint_upper: "x \<le> of_int b \<Longrightarrow> rint x \<le> b"
proof -
  assume le: "x \<le> of_int b"
  show ?thesis
  proof (cases "x = of_int b")
    case True
    then show ?thesis by (simp add: rint_def Let_def)
  next
    case False
    with le have "x < of_int b" by simp
    then have "\<lfloor>x\<rfloor> < b" by (simp add: floor_less_iff)
    then show ?thesis by (simp add: rint_def Let_def)
  qed
qed

lemma py_round_1_bounds:
  assumes "of_int a \<le> x" and "x \<le> of_int b"
  shows "of_int a \<le> py_round x 1 \<and> py_round x 1 \<le> of_int b"
proof -
  have "of_int (10 * a) \<le> x * 10" and "x * 10 \<le> of_int (10 * b)"
    using assms by simp_all
  then have "10 * a \<le> rint (x * 10)" and "rint (x * 10) \<le> 10 * b"
    by (simp_all only: rint_lower rint_upper)
  then have "(of_int (10 * a) :: real) \<le> of_int (rint (x * 10))"
    and "(of_int (rint (x * 10)) :: real) \<le> of_int (10 * b)"
    by (simp_all only: of_int_le_iff)
  then show ?thesis by (simp add: py_round_def)
qed

lemma clipped_rounded_positive:
  "1 \<le> py_round (clip x 1 95) 1 \<and> py_round (clip x 1 95) 1 \<le> 95"
  using py_round_1_bounds [of 1 "clip x 1 95" 95] clip_bounds [of 1 95 x] by simp

lemma clipped_rounded_negative:
  "- 95 \<le> py_round (clip x (- 95) (- 1)) 1 \<and> py_round (clip x (- 95) (- 1)) 1 \<le> - 1"
  using py_round_1_bounds [of "- 95" "clip x (- 95) (- 1)" "- 1"] clip_bounds [of "- 95" "- 1" x]
  by simp

text \<open>What a loop appends: one record per index, each produced by the body at that index.\<close>

lemma for_append_appends:
  assumes body: "\<And>i g. P i (fst (body i g))"
  shows "\<exists>news. fst (for_append body idxs data g) = data @ news \<and> length news = length idxs \<and>
           (\<forall>k < length idxs. P (idxs ! k) (news ! k))"
proof (induction idxs arbitrary: data g)
  case Nil
  then show ?case by simp
next
  case (Cons i rest)
  obtain x g' where step: "body i g = (x, g')" by (cases "body i g")
  from Cons.IH [of "data @ [x]" g'] obtain news where
    news: "fst (for_append body rest (data @ [x]) g') = (data @ [x]) @ news"
      "length news = length rest" "\<forall>k < length rest. P (rest ! k) (news ! k)"
    by blast
  have px: "P i x" using body [of i g] step by simp
  have "\<forall>k < length (i # rest). P ((i # rest) ! k) ((x # news) ! k)"
  proof (intro allI impI)
    fix k assume "k < length (i # rest)"
    then show "P ((i # rest) ! k) ((x # news) ! k)"
      using px news(3) by (cases k) simp_all
  qed
  then show ?case using step news(1,2) by (intro exI [of _ "x # news"]) simp
qed



lemma republican_county_shape: "republican_shape i (fst (republican_county R i g))"
  using clipped_rounded_positive
  by (simp add: republican_county_def republican_shape_def split: prod.splits)

lemma democrat_county_shape: "democrat_shape i (fst (democrat_county R i g))"
  using clipped_rounded_negative
  by (simp add: democrat_county_def democrat_shape_def split: prod.splits)

lemma republican_county_draws_votes:
  "\<exists>s. total_votes (fst (republican_county R i g)) = fst (random_randint R 100 80000 s)"
proof -
  obtain a g1 where 1: "random_choice R states g = (a, g1)" by (cases "random_choice R states g")
  obtain b g2 where 2: "random_uniform R 5 85 g1 = (b, g2)" by (cases "random_uniform R 5 85 g1")
  obtain c g3 where 3: "random_normal R 0 3 g2 = (c, g3)" by (cases "random_normal R 0 3 g2")
  obtain d g4 where 4: "random_normal R 0 4 g3 = (d, g4)" by (cases "random_normal R 0 4 g3")
  obtain v g5 where 5: "random_randint R 100 80000 g4 = (v, g5)"
    by (cases "random_randint R 100 80000 g4")
  have "total_votes (fst (republican_county R i g)) = fst (random_randint R 100 80000 g4)"
    by (simp add: republican_county_def 1 2 3 4 5)
  then show ?thesis ..
qed

lemma democrat_county_draws_votes:
  "\<exists>s. total_votes (fst (democrat_county R i g)) = fst (random_randint R 100 80000 s)"
proof -
  obtain a g1 where 1: "random_choice R states g = (a, g1)" by (cases "random_choice R states g")
  obtain b g2 where 2: "random_uniform R (- 85) (- 5) g1 = (b, g2)"
    by (cases "random_uniform R (- 85) (- 5) g1")
  obtain c g3 where 3: "random_normal R 0 3 g2 = (c, g3)" by (cases "random_normal R 0 3 g2")
  obtain d g4 where 4: "random_normal R 0 4 g3 = (d, g4)" by (cases "random_normal R 0 4 g3")
  obtain v g5 where 5: "random_randint R 100 80000 g4 = (v, g5)"
    by (cases "random_randint R 100 80000 g4")
  have "total_votes (fst (democrat_county R i g)) = fst (random_randint R 100 80000 g4)"
    by (simp add: democrat_county_def 1 2 3 4 5)
  then show ?thesis ..
qed


lemma randint_100_80000:
  "randint_in_range R \<Longrightarrow>
     100 \<le> fst (random_randint R 100 80000 s) \<and> fst (random_randint R 100 80000 s) \<le> 79999"
proof -
  assume "randint_in_range R"
  then have "(100::int) < 80000 \<longrightarrow>
      100 \<le> fst (random_randint R 100 80000 s) \<and> fst (random_randint R 100 80000 s) < 80000"
    unfolding randint_in_range_def by blast
  then show ?thesis by simp
qed

lemma republican_county_votes:
  "randint_in_range R \<Longrightarrow> votes_in_range (fst (republican_county R i g))"
  using republican_county_draws_votes [of R i g] randint_100_80000 [of R]
  by (auto simp add: votes_in_range_def)

lemma democrat_county_votes:
  "randint_in_range R \<Longrightarrow> votes_in_range (fst (democrat_county R i g))"
  using democrat_county_draws_votes [of R i g] randint_100_80000 [of R]
  by (auto simp add: votes_in_range_def)

lemma for_append_range:
  assumes body: "\<And>i g. P i (fst (body i g))"
  shows "\<exists>news. fst (for_append body [a..<b] data g) = data @ news \<and> length news = b - a \<and>
           (\<forall>k < b - a. P (a + k) (news ! k))"
proof -
  from for_append_appends [of P body "[a..<b]" data g, OF body] obtain news where
    news: "fst (for_append body [a..<b] data g) = data @ news" "length news = length [a..<b]"
      "\<forall>k < length [a..<b]. P ([a..<b] ! k) (news ! k)"
    by blast
  have "\<forall>k < b - a. P (a + k) (news ! k)"
  proof (intro allI impI)
    fix k assume k: "k < b - a"
    then have "[a..<b] ! k = a + k" by (simp only: nth_upt)
    then show "P (a + k) (news ! k)" using news(3) k by (simp only: length_upt) metis
  qed
  then show ?thesis using news(1,2) by (simp only: length_upt) blast
qed

text \<open>
  The output is the 120 records of the first loop followed by the 120 of the second; the
  record at position \<open>k\<close> was built at loop index \<open>k\<close>.
\<close>

lemma generate_sample_data_structure:
  assumes rep: "\<And>i g. P i (fst (republican_county R i g))"
    and dem: "\<And>i g. Q i (fst (democrat_county R i g))"
  shows "\<exists>reps dems. fst (generate_sample_data R g0) = reps @ dems \<and>
           length reps = 120 \<and> length dems = 120 \<and>
           (\<forall>k < 120. P k (reps ! k)) \<and> (\<forall>k < 120. Q (120 + k) (dems ! k))"
proof -
  obtain data g' where
    first: "for_append (republican_county R) [0..<120] [] (random_seed R 42) = (data, g')"
    by (cases "for_append (republican_county R) [0..<120] [] (random_seed R 42)")
  from for_append_range [of P "republican_county R" 0 120 "[]" "random_seed R 42", OF rep]
  obtain reps where reps: "fst (for_append (republican_county R) [0..<120] [] (random_seed R 42)) = reps"
    "length reps = 120" "\<forall>k < 120. P k (reps ! k)"
    by auto
  from for_append_range [of Q "democrat_county R" 120 240 data g', OF dem]
  obtain dems where dems: "fst (for_append (democrat_county R) [120..<240] data g') = data @ dems"
    "length dems = 120" "\<forall>k < 120. Q (120 + k) (dems ! k)"
    by auto
  have "data = reps" using first reps(1) by (simp only: fst_conv)
  then have "fst (generate_sample_data R g0) = reps @ dems"
    using first dems(1) by (simp only: generate_sample_data_def Let_def prod.case)
  then show ?thesis using reps(2,3) dems(2,3) by blast
qed

lemma length_generate_sample_data: "length (fst (generate_sample_data R g)) = 240"
  using generate_sample_data_structure [of "\<lambda>i r. True" R "\<lambda>i r. True" g] by auto

lemma digits_value_snoc: "digits_value (s @ [c]) = 10 * digits_value s + (of_char c - 48)"
  by (simp add: digits_value_def)

lemma digit_char_value: "d < 10 \<Longrightarrow> of_char (char_of (48 + d)) - 48 = (d::nat)"
  by (simp add: of_char_of)

lemma digits_value_str_nat: "digits_value (str_nat n) = n"
proof (induction n rule: str_nat.induct)
  case (1 n)
  show ?case
  proof (cases "n < 10")
    case True
    then show ?thesis
      using digit_char_value [of n] by (simp add: str_nat.simps [of n] digits_value_def)
  next
    case False
    then have "digits_value (str_nat n) = 10 * digits_value (str_nat (n div 10)) + n mod 10"
      using digit_char_value [of "n mod 10"]
      by (simp add: str_nat.simps [of n] digits_value_snoc)
    then show ?thesis using "1.IH" False by simp
  qed
qed

lemma str_nat_inject: "str_nat m = str_nat n \<Longrightarrow> m = n"
  by (metis digits_value_str_nat)

lemma lcg_randint_in_range: "randint_in_range lcg"
proof -
  have "low \<le> low + int s mod (high - low) \<and> low + int s mod (high - low) < high"
    if "low < high" for low high :: int and s :: nat
  proof -
    from that have "0 < high - low" by simp
    then have "0 \<le> int s mod (high - low)" and "int s mod (high - low) < high - low"
      by simp_all
    then show ?thesis by linarith
  qed
  then show ?thesis by (simp add: randint_in_range_def lcg_def)
qed

lemma generated_record_shapes:
  "\<exists>reps dems. fst (generate_sample_data R g) = reps @ dems \<and>
     length reps = 120 \<and> length dems = 120 \<and>
     (\<forall>k < 120. republican_shape k (reps ! k)) \<and>
     (\<forall>k < 120. democrat_shape (120 + k) (dems ! k))"
  using generate_sample_data_structure [of republican_shape R democrat_shape g]
    republican_county_shape [of _ R] democrat_county_shape [of _ R]
  by blast

lemma generated_record_cases:
  assumes "r \<in> set (fst (generate_sample_data R g))"
  shows "(\<exists>i. republican_shape i r) \<or> (\<exists>i. democrat_shape i r)"
proof -
  from generated_record_shapes [of R g] obtain reps dems where
    d: "fst (generate_sample_data R g) = reps @ dems" "length reps = 120" "length dems = 120"
      "\<forall>k < 120. republican_shape k (reps ! k)"
      "\<forall>k < 120. democrat_shape (120 + k) (dems ! k)"
    by blast
  from assms d(1) have "r \<in> set reps \<or> r \<in> set dems" by simp
  then show ?thesis
  proof
    assume "r \<in> set reps"
    then obtain k where "k < length reps" "reps ! k = r" by (auto simp: in_set_conv_nth)
    then show ?thesis using d(2,4) by auto
  next
    assume "r \<in> set dems"
    then obtain k where "k < length dems" "dems ! k = r" by (auto simp: in_set_conv_nth)
    then show ?thesis using d(3,5) by auto
  qed
qed

lemma first_generated_record_in_output:
  "fst (generate_sample_data R g) ! 0 \<in> set (fst (generate_sample_data R g))"
  by (rule nth_mem) (simp add: length_generate_sample_data)

lemma republican_shape_margins:
  assumes "republican_shape i r"
  shows "margin_2020 r \<noteq> 0 \<and> margin_2024 r \<noteq> 0 \<and>
     sgn (margin_2020 r) = sgn (margin_2024 r) \<and>
     (party r = ''Republican'' \<or> party r = ''Democrat'') \<and>
     (party r = ''Republican'' \<longrightarrow>
        1 \<le> margin_2020 r \<and> margin_2020 r \<le> 95 \<and> 1 \<le> margin_2024 r \<and> margin_2024 r \<le> 95) \<and>
     (party r = ''Democrat'' \<longrightarrow>
        - 95 \<le> margin_2020 r \<and> margin_2020 r \<le> - 1 \<and>
        - 95 \<le> margin_2024 r \<and> margin_2024 r \<le> - 1)"
proof -
  from assms have p: "party r = ''Republican''"
    and b: "1 \<le> margin_2020 r" "margin_2020 r \<le> 95" "1 \<le> margin_2024 r" "margin_2024 r \<le> 95"
    by (simp_all only: republican_shape_def)
  from b have "sgn (margin_2020 r) = 1" "sgn (margin_2024 r) = 1" by simp_all
  moreover have "party r \<noteq> ''Democrat''" using p by simp
  ultimately show ?thesis using p b by simp
qed

lemma democrat_shape_margins:
  assumes "democrat_shape i r"
  shows "margin_2020 r \<noteq> 0 \<and> margin_2024 r \<noteq> 0 \<and>
     sgn (margin_2020 r) = sgn (margin_2024 r) \<and>
     (party r = ''Republican'' \<or> party r = ''Democrat'') \<and>
     (party r = ''Republican'' \<longrightarrow>
        1 \<le> margin_2020 r \<and> margin_2020 r \<le> 95 \<and> 1 \<le> margin_2024 r \<and> margin_2024 r \<le> 95) \<and>
     (party r = ''Democrat'' \<longrightarrow>
        - 95 \<le> margin_2020 r \<and> margin_2020 r \<le> - 1 \<and>
        - 95 \<le> margin_2024 r \<and> margin_2024 r \<le> - 1)"
proof -
  from assms have p: "party r = ''Democrat''"
    and b: "- 95 \<le> margin_2020 r" "margin_2020 r \<le> - 1" "- 95 \<le> margin_2024 r" "margin_2024 r \<le> - 1"
    by (simp_all only: democrat_shape_def)
  from b have "sgn (margin_2020 r) = - 1" "sgn (margin_2024 r) = - 1" by simp_all
  moreover have "party r \<noteq> ''Republican''" using p by simp
  ultimately show ?thesis using p b by simp
qed

text \<open>
  C1. Every record of the output of \<open>generate_sample_data\<close> has both margins non-zero and of
  the same sign; a record labelled Republican has both margins between 1 and 95, a record
  labelled Democrat has both between -95 and -1, and every record carries one of the two
  labels. This holds for every behaviour of the random generator: the bounds come from the
  clipping (and survive the rounding to one decimal), not from a filter on the output.
\<close>

theorem generated_margins_same_strict_sign:
  "\<forall>r \<in> set (fst (generate_sample_data R g)).
     margin_2020 r \<noteq> 0 \<and> margin_2024 r \<noteq> 0 \<and>
     sgn (margin_2020 r) = sgn (margin_2024 r) \<and>
     (party r = ''Republican'' \<or> party r = ''Democrat'') \<and>
     (party r = ''Republican'' \<longrightarrow>
        1 \<le> margin_2020 r \<and> margin_2020 r \<le> 95 \<and> 1 \<le> margin_2024 r \<and> margin_2024 r \<le> 95) \<and>
     (party r = ''Democrat'' \<longrightarrow>
        - 95 \<le> margin_2020 r \<and> margin_2020 r \<le> - 1 \<and>
        - 95 \<le> margin_2024 r \<and> margin_2024 r \<le> - 1)"
proof
  fix r assume "r \<in> set (fst (generate_sample_data R g))"
  then have "(\<exists>i. republican_shape i r) \<or> (\<exists>i. democrat_shape i r)"
    by (rule generated_record_cases)
  then show "margin_2020 r \<noteq> 0 \<and> margin_2024 r \<noteq> 0 \<and>
     sgn (margin_2020 r) = sgn (margin_2024 r) \<and>
     (party r = ''Republican'' \<or> party r = ''Democrat'') \<and>
     (party r = ''Republican'' \<longrightarrow>
        1 \<le> margin_2020 r \<and> margin_2020 r \<le> 95 \<and> 1 \<le> margin_2024 r \<and> margin_2024 r \<le> 95) \<and>
     (party r = ''Democrat'' \<longrightarrow>
        - 95 \<le> margin_2020 r \<and> margin_2020 r \<le> - 1 \<and>
        - 95 \<le> margin_2024 r \<and> margin_2024 r \<le> - 1)"
    using republican_shape_margins democrat_shape_margins by (elim disjE exE) blast+
qed

theorem generated_margins_same_strict_sign_witness:
  "fst (generate_sample_data lcg 0) ! 0 \<in> set (fst (generate_sample_data lcg 0)) \<and>
   margin_2020 (fst (generate_sample_data lcg 0) ! 0) \<noteq> 0 \<and>
   margin_2024 (fst (generate_sample_data lcg 0) ! 0) \<noteq> 0 \<and>
   sgn (margin_2020 (fst (generate_sample_data lcg 0) ! 0)) =
     sgn (margin_2024 (fst (generate_sample_data lcg 0) ! 0))"
proof -
  have m: "fst (generate_sample_data lcg 0) ! 0 \<in> set (fst (generate_sample_data lcg 0))"
    by (rule first_generated_record_in_output)
  from bspec [OF generated_margins_same_strict_sign m] m show ?thesis by (simp only: simp_thms)
qed

text \<open>
  C2. \<open>generate_sample_data\<close> is deterministic: it reseeds the global generator with the
  constant 42 before the first draw, so the records it returns (and the generator state it
  leaves) do not depend on the state it finds. In particular a second invocation, run on
  the state the first one left, returns the same records in the same order.
\<close>

theorem generate_sample_data_deterministic:
  "generate_sample_data R g1 = generate_sample_data R g2 \<and>
   fst (generate_sample_data R (snd (generate_sample_data R g1))) =
     fst (generate_sample_data R g1)"
  by (simp only: generate_sample_data_def Let_def)

lemma map_eq_map_upt:
  assumes "length xs = n" and "\<forall>k < n. f (xs ! k) = h (a + k)"
  shows "map f xs = map h [a..<a + n]"
proof (rule nth_equalityI)
  show "length (map f xs) = length (map h [a..<a + n])" using assms(1) by simp
next
  fix k assume "k < length (map f xs)"
  then have k: "k < n" using assms(1) by simp
  then show "map f xs ! k = map h [a..<a + n] ! k" using assms by simp
qed

lemma county_label_inject: "''County '' @ str_nat m = ''County '' @ str_nat n \<Longrightarrow> m = n"
  using str_nat_inject by simp

lemma distinct_county_labels: "distinct (map (\<lambda>i. ''County '' @ str_nat i) [a..<b])"
  by (simp only: distinct_map distinct_upt simp_thms) (rule inj_onI, rule county_label_inject)



lemma generated_records_with_votes:
  assumes "randint_in_range R"
  shows "\<exists>reps dems. fst (generate_sample_data R g) = reps @ dems \<and>
     length reps = 120 \<and> length dems = 120 \<and>
     (\<forall>k < 120. generated_republican k (reps ! k)) \<and>
     (\<forall>k < 120. generated_democrat (120 + k) (dems ! k))"
proof -
  have "\<And>i s. generated_republican i (fst (republican_county R i s))"
    using assms by (simp add: generated_republican_def republican_county_shape republican_county_votes)
  moreover have "\<And>i s. generated_democrat i (fst (democrat_county R i s))"
    using assms by (simp add: generated_democrat_def democrat_county_shape democrat_county_votes)
  ultimately show ?thesis
    using generate_sample_data_structure [of generated_republican R generated_democrat g] by blast
qed

text \<open>
  C10. Provided \<^verbatim>\<open>randint(100, 80000)\<close> keeps its contract, \<open>generate_sample_data\<close> returns
  exactly 240 records: the first 120 are labelled Republican, the last 120 Democrat; the
  county names are County 1 to County 240 in this order, hence pairwise distinct; and every
  total\_votes lies between 100 and 79999.
\<close>

theorem generate_sample_data_240_records:
  assumes "randint_in_range R"
  shows "length (fst (generate_sample_data R g)) = 240 \<and>
     map party (take 120 (fst (generate_sample_data R g))) = replicate 120 ''Republican'' \<and>
     map party (drop 120 (fst (generate_sample_data R g))) = replicate 120 ''Democrat'' \<and>
     map county (fst (generate_sample_data R g)) = map (\<lambda>i. ''County '' @ str_nat i) [1..<241] \<and>
     distinct (map county (fst (generate_sample_data R g))) \<and>
     (\<forall>r \<in> set (fst (generate_sample_data R g)). 100 \<le> total_votes r \<and> total_votes r \<le> 79999)"
proof -
  from generated_records_with_votes [OF assms, of g] obtain reps dems where
    d: "fst (generate_sample_data R g) = reps @ dems" "length reps = 120" "length dems = 120"
    and rp: "\<forall>k < 120. generated_republican k (reps ! k)"
    and dm: "\<forall>k < 120. generated_democrat (120 + k) (dems ! k)"
    by blast
  have len: "length (reps @ dems) = 240" using d(2,3) by simp
  have "\<forall>k < 120. party (reps ! k) = ''Republican''"
    using rp by (simp add: generated_republican_def republican_shape_def)
  then have p1: "map party reps = replicate 120 ''Republican''"
    using d(2) by (intro nth_equalityI) simp_all
  have "\<forall>k < 120. party (dems ! k) = ''Democrat''"
    using dm by (simp add: generated_democrat_def democrat_shape_def)
  then have p2: "map party dems = replicate 120 ''Democrat''"
    using d(3) by (intro nth_equalityI) simp_all
  have c1: "\<forall>k < 120. county (reps ! k) = ''County '' @ str_nat (1 + k)"
    using rp by (simp add: generated_republican_def republican_shape_def)
  have c2: "\<forall>k < 120. county (dems ! k) = ''County '' @ str_nat (121 + k)"
    using dm by (simp add: generated_democrat_def democrat_shape_def add.commute)
  have "\<forall>k < 240. county ((reps @ dems) ! k) = ''County '' @ str_nat (1 + k)"
  proof (intro allI impI)
    fix k :: nat assume k: "k < 240"
    show "county ((reps @ dems) ! k) = ''County '' @ str_nat (1 + k)"
    proof (cases "k < 120")
      case True
      then show ?thesis using c1 d(2) by (simp add: nth_append)
    next
      case False
      then have "k - 120 < 120" and e: "121 + (k - 120) = 1 + k" using k by simp_all
      then have "county (dems ! (k - 120)) = ''County '' @ str_nat (1 + k)" using c2 by metis
      then show ?thesis using False d(2) by (simp add: nth_append)
    qed
  qed
  then have "map county (reps @ dems) = map (\<lambda>i. ''County '' @ str_nat i) [1..<1 + 240]"
    using len by (intro map_eq_map_upt) simp_all
  then have cs: "map county (reps @ dems) = map (\<lambda>i. ''County '' @ str_nat i) [1..<241]"
    by (simp only: one_plus_numeral semiring_norm numeral_plus_one)
  then have dist: "distinct (map county (reps @ dems))"
    by (simp only: distinct_county_labels)
  have votes: "\<forall>r \<in> set (reps @ dems). 100 \<le> total_votes r \<and> total_votes r \<le> 79999"
  proof
    fix r assume "r \<in> set (reps @ dems)"
    then have "r \<in> set reps \<or> r \<in> set dems" by simp
    then have "votes_in_range r"
    proof
      assume "r \<in> set reps"
      then obtain k where "k < length reps" "reps ! k = r" by (auto simp: in_set_conv_nth)
      then show ?thesis using rp d(2) by (auto simp: generated_republican_def)
    next
      assume "r \<in> set dems"
      then obtain k where "k < length dems" "dems ! k = r" by (auto simp: in_set_conv_nth)
      then show ?thesis using dm d(3) by (auto simp: generated_democrat_def)
    qed
    then show "100 \<le> total_votes r \<and> total_votes r \<le> 79999" by (simp add: votes_in_range_def)
  qed
  have t: "take 120 (reps @ dems) = reps" and dr: "drop 120 (reps @ dems) = dems"
    using d(2) by simp_all
  show ?thesis
    unfolding d(1) t dr using len p1 p2 cs dist votes by blast
qed

theorem generate_sample_data_240_records_witness:
  "randint_in_range lcg \<and>
   length (fst (generate_sample_data lcg 0)) = 240 \<and>
   map party (take 120 (fst (generate_sample_data lcg 0))) = replicate 120 ''Republican'' \<and>
   map party (drop 120 (fst (generate_sample_data lcg 0))) = replicate 120 ''Democrat'' \<and>
   distinct (map county (fst (generate_sample_data lcg 0)))"
  using generate_sample_data_240_records [OF lcg_randint_in_range, of 0] lcg_randint_in_range
  by blast

section \<open>The filter step and the top-five tables\<close>

text \<open>
  C4. The filter step does not return: whatever the frame and the widget values are, line 86
  raises \<^verbatim>\<open>NameError\<close> for \<^verbatim>\<open>party_filter\<close>, a name the script never binds. With the
  threshold 0, the wildcard state and both checkboxes ticked the claim expects the input
  frame back.
\<close>

theorem apply_filters_raises_NameError:
  "apply_filters df selected_state min_votes show_republican show_democrat =
     Inl (NameError ''party_filter'')"
  by (simp add: apply_filters_def script_globals_def load_name_def Let_def)

lemma take_sort_key_length: "length (take n (sort_key f xs)) = min n (length xs)"
  by (simp add: min.commute)

lemma take_sort_key_sorted: "sorted (map f (take n (sort_key f xs)))"
proof -
  have "sorted (map f (sort_key f xs))" by (rule sorted_sort_key)
  then have "sorted (take n (map f (sort_key f xs)))" by (rule sorted_wrt_take)
  then show ?thesis by (simp only: take_map)
qed

lemma take_sort_key_mset:
  "mset (take n (sort_key f xs)) \<subseteq># mset xs \<and>
   mset xs - mset (take n (sort_key f xs)) = mset (drop n (sort_key f xs))"
proof -
  have "mset xs = mset (take n (sort_key f xs)) + mset (drop n (sort_key f xs))"
    by (metis append_take_drop_id mset_append mset_sort)
  then show ?thesis by (metis add_diff_cancel_left' mset_subset_eq_add_left)
qed

lemma take_sort_key_least:
  assumes "x \<in> set (take n (sort_key f xs))" and "y \<in># mset xs - mset (take n (sort_key f xs))"
  shows "f x \<le> f y"
proof -
  from assms(2) have y: "y \<in> set (drop n (sort_key f xs))"
    using take_sort_key_mset [of n f xs] by simp
  have "sorted (map f (take n (sort_key f xs) @ drop n (sort_key f xs)))"
    by (simp only: append_take_drop_id sorted_sort_key)
  then have "\<forall>a \<in> set (map f (take n (sort_key f xs))).
      \<forall>b \<in> set (map f (drop n (sort_key f xs))). a \<le> b"
    by (simp only: map_append sorted_append) blast
  then show ?thesis using assms(1) y by simp
qed

lemma take_sort_key_stable:
  "prefix (filter (\<lambda>r. f r = k) (take n (sort_key f xs))) (filter (\<lambda>r. f r = k) xs)"
proof -
  have "filter (\<lambda>r. f r = k) (sort_key f xs) =
      filter (\<lambda>r. f r = k) (take n (sort_key f xs)) @ filter (\<lambda>r. f r = k) (drop n (sort_key f xs))"
    by (simp only: filter_append [symmetric] append_take_drop_id)
  then have "filter (\<lambda>r. f r = k) xs =
      filter (\<lambda>r. f r = k) (take n (sort_key f xs)) @ filter (\<lambda>r. f r = k) (drop n (sort_key f xs))"
    by (simp only: sort_key_stable)
  then show ?thesis by (rule prefixI)
qed

lemma nlargest_properties:
  "length (nlargest n col df) = min n (length df) \<and>
   sorted_wrt (\<lambda>a b. col b \<le> col a) (nlargest n col df) \<and>
   mset (nlargest n col df) \<subseteq># mset df \<and>
   (\<forall>x \<in> set (nlargest n col df). \<forall>y \<in># mset df - mset (nlargest n col df). col y \<le> col x) \<and>
   (\<forall>c. prefix (filter (\<lambda>r. col r = c) (nlargest n col df)) (filter (\<lambda>r. col r = c) df))"
proof -
  let ?f = "\<lambda>r. - col r"
  have 1: "length (nlargest n col df) = min n (length df)"
    unfolding nlargest_def by (rule take_sort_key_length)
  have "sorted (map ?f (nlargest n col df))"
    unfolding nlargest_def by (rule take_sort_key_sorted)
  then have 2: "sorted_wrt (\<lambda>a b. col b \<le> col a) (nlargest n col df)"
    by (simp add: sorted_map)
  have 3: "mset (nlargest n col df) \<subseteq># mset df"
    unfolding nlargest_def using take_sort_key_mset [of n ?f df] by blast
  have 4: "\<forall>x \<in> set (nlargest n col df). \<forall>y \<in># mset df - mset (nlargest n col df). col y \<le> col x"
    unfolding nlargest_def using take_sort_key_least [of _ n ?f df] by fastforce
  have 5: "\<forall>c. prefix (filter (\<lambda>r. col r = c) (nlargest n col df)) (filter (\<lambda>r. col r = c) df)"
  proof
    fix c
    have "(\<lambda>r. - col r = - c) = (\<lambda>r. col r = c)" by auto
    then show "prefix (filter (\<lambda>r. col r = c) (nlargest n col df)) (filter (\<lambda>r. col r = c) df)"
      unfolding nlargest_def using take_sort_key_stable [of ?f "- c" n df] by simp
  qed
  from 1 2 3 4 5 show ?thesis by blast
qed

lemma nsmallest_properties:
  "length (nsmallest n col df) = min n (length df) \<and>
   sorted_wrt (\<lambda>a b. col a \<le> col b) (nsmallest n col df) \<and>
   mset (nsmallest n col df) \<subseteq># mset df \<and>
   (\<forall>x \<in> set (nsmallest n col df). \<forall>y \<in># mset df - mset (nsmallest n col df). col x \<le> col y) \<and>
   (\<forall>c. prefix (filter (\<lambda>r. col r = c) (nsmallest n col df)) (filter (\<lambda>r. col r = c) df))"
proof -
  have 1: "length (nsmallest n col df) = min n (length df)"
    unfolding nsmallest_def by (rule take_sort_key_length)
  have "sorted (map col (nsmallest n col df))"
    unfolding nsmallest_def by (rule take_sort_key_sorted)
  then have 2: "sorted_wrt (\<lambda>a b. col a \<le> col b) (nsmallest n col df)"
    by (simp add: sorted_map)
  have 3: "mset (nsmallest n col df) \<subseteq># mset df"
    unfolding nsmallest_def using take_sort_key_mset [of n col df] by blast
  have 4: "\<forall>x \<in> set (nsmallest n col df). \<forall>y \<in># mset df - mset (nsmallest n col df). col x \<le> col y"
    unfolding nsmallest_def using take_sort_key_least [of _ n col df] by fastforce
  have 5: "\<forall>c. prefix (filter (\<lambda>r. col r = c) (nsmallest n col df)) (filter (\<lambda>r. col r = c) df)"
    unfolding nsmallest_def using take_sort_key_stable [of col _ n df] by blast
  from 1 2 3 4 5 show ?thesis by blast
qed

lemma with_change_rows:
  "map county_record.truncate (with_change rnd filtered_df) = filtered_df \<and>
   map change (with_change rnd filtered_df) =
     map (\<lambda>r. rnd (margin_2024 r - margin_2020 r)) filtered_df"
  by (simp add: with_change_def county_record.truncate_def comp_def map_idI)

lemma pow2_powr: "pow2 e = 2 powr (of_int e)"
proof (cases "0 \<le> e")
  case True
  then show ?thesis by (simp add: pow2_def powr_real_of_int)
next
  case False
  then show ?thesis by (simp add: pow2_def powr_real_of_int field_simps)
qed

text \<open>Rounding a value whose binade is known.\<close>

lemma binary64_in_binade:
  assumes "pow2 e \<le> \<bar>x\<bar>" and "\<bar>x\<bar> < pow2 (e + 1)" and "- 1022 \<le> e"
  shows "binary64 x = of_int (rint (x / pow2 (e - 52))) * pow2 (e - 52)"
proof -
  have "0 < pow2 e" by (simp add: pow2_powr)
  then have pos: "0 < \<bar>x\<bar>" using assms(1) by linarith
  have "\<lfloor>log 2 \<bar>x\<bar>\<rfloor> = e"
    using assms(1,2) pos by (simp add: floor_log_eq_powr_iff pow2_powr)
  then show ?thesis using pos assms(3) by (simp add: binary64_def Let_def max_def)
qed

lemma binary64_small_integers:
  "binary64 0 = 0" "binary64 2 = 2" "binary64 5 = 5" "binary64 7 = 7"
  "binary64 (- 1) = - 1" "binary64 (- 3) = - 3"
proof -
  show "binary64 0 = 0" by (simp add: binary64_def)
  show "binary64 2 = 2"
    using binary64_in_binade [of 1 2] by (simp add: pow2_def rint_def Let_def)
  show "binary64 5 = 5"
    using binary64_in_binade [of 2 5] by (simp add: pow2_def rint_def Let_def)
  show "binary64 7 = 7"
    using binary64_in_binade [of 2 7] by (simp add: pow2_def rint_def Let_def)
  show "binary64 (- 1) = - 1"
    using binary64_in_binade [of 0 "- 1"] by (simp add: pow2_def rint_def Let_def)
  show "binary64 (- 3) = - 3"
    using binary64_in_binade [of 1 "- 3"] by (simp add: pow2_def rint_def Let_def)
qed

lemma binary64_stored_margins:
  "binary64 (369 / 10) = 5193213320311603 / 2 ^ 47"
  "binary64 (61 / 2) = 61 / 2"
  "binary64 (- (79 / 10)) = - (4447304632028365 / 2 ^ 49)"
  "binary64 (- (3 / 2)) = - (3 / 2)"
proof -
  show "binary64 (369 / 10) = 5193213320311603 / 2 ^ 47"
    using binary64_in_binade [of 5 "369 / 10"] by (simp add: pow2_def rint_def Let_def)
  show "binary64 (61 / 2) = 61 / 2"
    using binary64_in_binade [of 4 "61 / 2"] by (simp add: pow2_def rint_def Let_def)
  show "binary64 (- (79 / 10)) = - (4447304632028365 / 2 ^ 49)"
    using binary64_in_binade [of 2 "- (79 / 10)"] by (simp add: pow2_def rint_def Let_def)
  show "binary64 (- (3 / 2)) = - (3 / 2)"
    using binary64_in_binade [of 0 "- (3 / 2)"] by (simp add: pow2_def rint_def Let_def)
qed

lemma binary64_near_tie_changes:
  "binary64 (- (900719925474099 / 140737488355328)) = - (900719925474099 / 140737488355328)"
  "binary64 (- (3602879701896397 / 562949953421312)) = - (3602879701896397 / 562949953421312)"
proof -
  show "binary64 (- (900719925474099 / 140737488355328)) =
      - (900719925474099 / 140737488355328)"
    using binary64_in_binade [of 2 "- (900719925474099 / 140737488355328)"]
    by (simp add: pow2_def rint_def Let_def)
  show "binary64 (- (3602879701896397 / 562949953421312)) =
      - (3602879701896397 / 562949953421312)"
    using binary64_in_binade [of 2 "- (3602879701896397 / 562949953421312)"]
    by (simp add: pow2_def rint_def Let_def)
qed

text \<open>
  In doubles the two changes of \<open>near_tie_counties\<close> are not equal (about
  -6.399999999999999 and -6.4), and the second row is the more negative one.
\<close>

lemma near_tie_changes:
  "map change (with_change binary64 near_tie_counties) =
     [- (900719925474099 / 140737488355328), - (3602879701896397 / 562949953421312)]"
  by (simp add: with_change_def near_tie_counties_def example_county_def
      binary64_stored_margins binary64_near_tie_changes)

lemma near_tie_top_d:
  "map fst (top_d (with_change binary64 near_tie_counties)) = [''County 216'', ''County 80'']"
  by (simp add: top_d_def nsmallest_def with_change_def near_tie_counties_def example_county_def
      shift_columns_def binary64_stored_margins binary64_near_tie_changes)

lemma example_top_r:
  "map fst (top_r (with_change binary64 example_counties)) = [''G'', ''B'', ''E'', ''I'', ''A'']"
  by (simp add: top_r_def nlargest_def with_change_def example_counties_def example_county_def
      shift_columns_def binary64_small_integers)

lemma example_top_d:
  "map fst (top_d (with_change binary64 example_counties)) = [''H'', ''J'', ''D'', ''F'', ''A'']"
  by (simp add: top_d_def nsmallest_def with_change_def example_counties_def example_county_def
      shift_columns_def binary64_small_integers)

text \<open>
  C5. Let \<open>df\<close> be the filtered frame with its \<^verbatim>\<open>change\<close> column: its rows are the rows
  of the input frame, in the same number and order, and the change of each row is the
  float64 difference margin\_2024 minus margin\_2020 of that row. For every \<open>n\<close>:
  \<open>nlargest n\<close> returns \<open>min n (length df)\<close> rows (all rows when \<open>n\<close> exceeds their number),
  in descending order of change; they are rows of the frame and no row left out has a larger
  change than a row returned; for every value of change, the returned rows with that value
  are an initial segment of the frame's rows with that value, in the frame's order (first
  seen wins). \<open>nsmallest n\<close> is symmetric. The tables \<open>top_r\<close> and \<open>top_d\<close> of the script
  are these with \<open>n = 5\<close>, restricted to five columns. This holds for every rounding \<open>rnd\<close>.
\<close>

theorem top_shift_extremal_stable:
  assumes "df = with_change rnd filtered_df"
  shows "map county_record.truncate df = filtered_df \<and>
     map change df = map (\<lambda>r. rnd (margin_2024 r - margin_2020 r)) filtered_df \<and>
     top_r df = map shift_columns (nlargest 5 change df) \<and>
     top_d df = map shift_columns (nsmallest 5 change df) \<and>
     length (nlargest n change df) = min n (length df) \<and>
     sorted_wrt (\<lambda>a b. change b \<le> change a) (nlargest n change df) \<and>
     mset (nlargest n change df) \<subseteq># mset df \<and>
     (\<forall>x \<in> set (nlargest n change df).
        \<forall>y \<in># mset df - mset (nlargest n change df). change y \<le> change x) \<and>
     (\<forall>c. prefix (filter (\<lambda>r. change r = c) (nlargest n change df))
                 (filter (\<lambda>r. change r = c) df)) \<and>
     length (nsmallest n change df) = min n (length df) \<and>
     sorted_wrt (\<lambda>a b. change a \<le> change b) (nsmallest n change df) \<and>
     mset (nsmallest n change df) \<subseteq># mset df \<and>
     (\<forall>x \<in> set (nsmallest n change df).
        \<forall>y \<in># mset df - mset (nsmallest n change df). change x \<le> change y) \<and>
     (\<forall>c. prefix (filter (\<lambda>r. change r = c) (nsmallest n change df))
                 (filter (\<lambda>r. change r = c) df))"
proof -
  have a: "map county_record.truncate df = filtered_df"
    and a': "map change df = map (\<lambda>r. rnd (margin_2024 r - margin_2020 r)) filtered_df"
    unfolding assms using with_change_rows [of rnd filtered_df] by blast+
  have b: "top_r df = map shift_columns (nlargest 5 change df)"
    and c: "top_d df = map shift_columns (nsmallest 5 change df)"
    by (simp_all only: top_r_def top_d_def)
  note a a' b c
  moreover note nlargest_properties [of n change df]
  moreover note nsmallest_properties [of n change df]
  ultimately show ?thesis by (intro conjI) (elim conjE, assumption)+
qed

theorem top_shift_extremal_stable_witness:
  "with_change binary64 example_counties = with_change binary64 example_counties \<and>
   map county_record.truncate (with_change binary64 example_counties) = example_counties \<and>
   map change (with_change binary64 example_counties) = [2, 5, 2, - 1, 5, 0, 7, - 3, 5, - 3] \<and>
   map fst (top_r (with_change binary64 example_counties)) = [''G'', ''B'', ''E'', ''I'', ''A''] \<and>
   map fst (top_d (with_change binary64 example_counties)) = [''H'', ''J'', ''D'', ''F'', ''A''] \<and>
   top_r (with_change binary64 example_counties) =
     map shift_columns (nlargest 5 change (with_change binary64 example_counties)) \<and>
   length (nlargest 20 change (with_change binary64 example_counties)) = 10 \<and>
   sorted_wrt (\<lambda>a b. change b \<le> change a)
     (nlargest 5 change (with_change binary64 example_counties))"
proof -
  have len: "length (with_change binary64 example_counties) = 10"
    by (simp add: with_change_def example_counties_def)
  from top_shift_extremal_stable [OF refl, of binary64 example_counties 20]
  have "length (nlargest 20 change (with_change binary64 example_counties)) = 10"
    by (simp add: len)
  moreover from top_shift_extremal_stable [OF refl, of binary64 example_counties 5]
  have "map county_record.truncate (with_change binary64 example_counties) = example_counties"
    and "map change (with_change binary64 example_counties) =
      map (\<lambda>r. binary64 (margin_2024 r - margin_2020 r)) example_counties"
    and "top_r (with_change binary64 example_counties) =
      map shift_columns (nlargest 5 change (with_change binary64 example_counties))"
    and "sorted_wrt (\<lambda>a b. change b \<le> change a)
      (nlargest 5 change (with_change binary64 example_counties))"
    by blast+
  moreover have "map (\<lambda>r. binary64 (margin_2024 r - margin_2020 r)) example_counties =
      [2, 5, 2, - 1, 5, 0, 7, - 3, 5, - 3]"
    by (simp add: example_counties_def example_county_def binary64_small_integers)
  ultimately show ?thesis using example_top_r example_top_d by (simp only: simp_thms)
qed

section \<open>Harmonization and the inner joins\<close>

lemma set_merge_inner:
  "set (merge_inner join left right) =
     {join l r | l r. l \<in> set left \<and> r \<in> set right \<and> key r = key l}"
  by (auto simp: merge_inner_def)

lemma with_gdp_columns:
  "key (with_gdp e g) = key e \<and> energy_sel.truncate (with_gdp e g) = energy_sel.truncate e \<and>
   gdp_percap (with_gdp e g) = gdp_row.gdp_percap g"
  by (simp add: with_gdp_def key_def energy_sel.defs merged_row.defs keyed.defs)

lemma with_co2_columns:
  "key (with_co2 m c) = key m \<and> energy_sel.truncate (with_co2 m c) = energy_sel.truncate m \<and>
   gdp_percap (with_co2 m c) = gdp_percap m \<and>
   co2_per_capita (with_co2 m c) = co2_row.co2_per_capita c"
  by (simp add: with_co2_def key_def energy_sel.defs merged_row.defs combined_row.defs keyed.defs)

lemma key_with_gdp: "key (with_gdp e g) = key e"
  using with_gdp_columns by blast

lemma merge_datasets_rows:
  "x \<in> set (merge_datasets energy_df gdp_df co2_df) \<longleftrightarrow>
     (\<exists>e g c. e \<in> set energy_df \<and> g \<in> set gdp_df \<and> c \<in> set co2_df \<and>
        key g = key e \<and> key c = key e \<and> x = with_co2 (with_gdp e g) c)"
proof
  assume "x \<in> set (merge_datasets energy_df gdp_df co2_df)"
  then obtain m c where m: "m \<in> set (merge_inner with_gdp energy_df gdp_df)"
    and c: "c \<in> set co2_df" "key c = key m" and x: "x = with_co2 m c"
    by (auto simp: merge_datasets_def set_merge_inner Let_def)
  from m obtain e g where e: "e \<in> set energy_df" "g \<in> set gdp_df" "key g = key e"
    and m': "m = with_gdp e g"
    by (auto simp: set_merge_inner)
  from c(2) m' have "key c = key e" by (simp add: key_with_gdp)
  with e c(1) x m' show "\<exists>e g c. e \<in> set energy_df \<and> g \<in> set gdp_df \<and> c \<in> set co2_df \<and>
        key g = key e \<and> key c = key e \<and> x = with_co2 (with_gdp e g) c"
    by blast
next
  assume "\<exists>e g c. e \<in> set energy_df \<and> g \<in> set gdp_df \<and> c \<in> set co2_df \<and>
        key g = key e \<and> key c = key e \<and> x = with_co2 (with_gdp e g) c"
  then obtain e g c where e: "e \<in> set energy_df" "g \<in> set gdp_df" "key g = key e"
    and c: "c \<in> set co2_df" "key c = key e" and x: "x = with_co2 (with_gdp e g) c"
    by blast
  from e have "with_gdp e g \<in> set (merge_inner with_gdp energy_df gdp_df)"
    unfolding set_merge_inner by blast
  moreover have "key c = key (with_gdp e g)" using c(2) by (simp add: key_with_gdp)
  ultimately have "with_co2 (with_gdp e g) c \<in>
      set (merge_inner with_co2 (merge_inner with_gdp energy_df gdp_df) co2_df)"
    using c(1) unfolding set_merge_inner [of with_co2] by blast
  then show "x \<in> set (merge_datasets energy_df gdp_df co2_df)"
    using x by (simp add: merge_datasets_def Let_def)
qed

lemma merged_row_columns:
  "key (with_co2 (with_gdp e g) c) = key e \<and>
   energy_sel.truncate (with_co2 (with_gdp e g) c) = energy_sel.truncate e \<and>
   gdp_percap (with_co2 (with_gdp e g) c) = gdp_row.gdp_percap g \<and>
   co2_per_capita (with_co2 (with_gdp e g) c) = co2_row.co2_per_capita c"
  using with_co2_columns [of "with_gdp e g" c] with_gdp_columns [of e g] by simp

lemma merge_datasets_keys:
  "set (map key (merge_datasets energy_df gdp_df co2_df)) =
     set (map key energy_df) \<inter> set (map key gdp_df) \<inter> set (map key co2_df)"
proof (rule set_eqI)
  fix k
  show "k \<in> set (map key (merge_datasets energy_df gdp_df co2_df)) \<longleftrightarrow>
      k \<in> set (map key energy_df) \<inter> set (map key gdp_df) \<inter> set (map key co2_df)"
  proof
    assume "k \<in> set (map key (merge_datasets energy_df gdp_df co2_df))"
    then obtain x where "x \<in> set (merge_datasets energy_df gdp_df co2_df)" "k = key x" by auto
    then obtain e g c where "e \<in> set energy_df" "g \<in> set gdp_df" "c \<in> set co2_df"
      "key g = key e" "key c = key e" "k = key (with_co2 (with_gdp e g) c)"
      unfolding merge_datasets_rows by blast
    then show "k \<in> set (map key energy_df) \<inter> set (map key gdp_df) \<inter> set (map key co2_df)"
      using merged_row_columns [of e g c] by (auto simp: image_iff) metis+
  next
    assume "k \<in> set (map key energy_df) \<inter> set (map key gdp_df) \<inter> set (map key co2_df)"
    then obtain e g c where e: "e \<in> set energy_df" "key e = k"
      and g: "g \<in> set gdp_df" "key g = k" and c: "c \<in> set co2_df" "key c = k"
      by auto
    then have "with_co2 (with_gdp e g) c \<in> set (merge_datasets energy_df gdp_df co2_df)"
      unfolding merge_datasets_rows by auto
    moreover have "key (with_co2 (with_gdp e g) c) = k"
      using merged_row_columns [of e g c] e(2) by simp
    ultimately show "k \<in> set (map key (merge_datasets energy_df gdp_df co2_df))"
      by (auto simp: image_iff) 
  qed
qed


lemmas example_tables =
  example_energy_def energy_example_def example_gdp_def example_co2_def

lemmas merge_evaluation =
  merge_datasets_def merge_inner_def with_gdp_def with_co2_def key_def Let_def
  energy_sel.defs merged_row.defs combined_row.defs keyed.defs

lemma example_merge_keys:
  "map key (merge_datasets (harmonize_energy example_energy) example_gdp (harmonize_co2 example_co2)) =
     [(Some ''GBR'', 2000)]"
  by (simp add: example_tables harmonize_energy_def harmonize_co2_def merge_evaluation)

text \<open>
  The claim C3 as stated fails: the energy row of GBR for 2000 has no coal value, and the one
  row of the merged table has none either.
\<close>

theorem merged_row_with_missing_metric:
  "map key (merge_datasets (harmonize_energy example_energy) example_gdp (harmonize_co2 example_co2)) =
     [(Some ''GBR'', 2000)] \<and>
   map coal (merge_datasets (harmonize_energy example_energy) example_gdp (harmonize_co2 example_co2)) =
     [None]"
  by (simp add: example_tables harmonize_energy_def harmonize_co2_def merge_evaluation)

text \<open>
  C3 (as amended). The merged table has exactly the keys (iso\_code, year) that occur in all
  three input tables, and each of its rows is put together from one energy row, one GDP row
  and one CO2 row with that key: its energy columns, its gdp\_percap and its
  co2\_per\_capita are theirs. The joins fill in no value, and a value that is missing in an
  input row is missing in the output row.
\<close>

theorem merge_datasets_inner_join:
  "set (map key (merge_datasets energy_df gdp_df co2_df)) =
     set (map key energy_df) \<inter> set (map key gdp_df) \<inter> set (map key co2_df) \<and>
   (\<forall>x \<in> set (merge_datasets energy_df gdp_df co2_df).
      \<exists>e \<in> set energy_df. \<exists>g \<in> set gdp_df. \<exists>c \<in> set co2_df.
        key e = key x \<and> key g = key x \<and> key c = key x \<and>
        energy_sel.truncate x = energy_sel.truncate e \<and>
        gdp_percap x = gdp_row.gdp_percap g \<and>
        co2_per_capita x = co2_row.co2_per_capita c)"
proof (intro conjI ballI)
  show "set (map key (merge_datasets energy_df gdp_df co2_df)) =
     set (map key energy_df) \<inter> set (map key gdp_df) \<inter> set (map key co2_df)"
    by (rule merge_datasets_keys)
next
  fix x assume "x \<in> set (merge_datasets energy_df gdp_df co2_df)"
  then obtain e g c where in_tables: "e \<in> set energy_df" "g \<in> set gdp_df" "c \<in> set co2_df"
    and keys: "key g = key e" "key c = key e" and x: "x = with_co2 (with_gdp e g) c"
    unfolding merge_datasets_rows by blast
  have "key e = key x \<and> key g = key x \<and> key c = key x \<and>
        energy_sel.truncate x = energy_sel.truncate e \<and>
        gdp_percap x = gdp_row.gdp_percap g \<and>
        co2_per_capita x = co2_row.co2_per_capita c"
    unfolding x using merged_row_columns [of e g c] keys by simp
  then show "\<exists>e \<in> set energy_df. \<exists>g \<in> set gdp_df. \<exists>c \<in> set co2_df.
        key e = key x \<and> key g = key x \<and> key c = key x \<and>
        energy_sel.truncate x = energy_sel.truncate e \<and>
        gdp_percap x = gdp_row.gdp_percap g \<and>
        co2_per_capita x = co2_row.co2_per_capita c"
    using in_tables by blast
qed

theorem merge_datasets_inner_join_witness:
  "set (map key (merge_datasets (harmonize_energy example_energy) example_gdp
      (harmonize_co2 example_co2))) = {(Some ''GBR'', 2000)} \<and>
   set (map key (harmonize_energy example_energy)) \<inter> set (map key example_gdp) \<inter>
     set (map key (harmonize_co2 example_co2)) = {(Some ''GBR'', 2000)} \<and>
   (Some ''FRA'', 2000) \<in> set (map key (harmonize_energy example_energy)) \<inter> set (map key example_gdp) \<and>
   (Some ''DEU'', 2000) \<in> set (map key (harmonize_co2 example_co2))"
proof -
  have 1: "set (map key (merge_datasets (harmonize_energy example_energy) example_gdp
      (harmonize_co2 example_co2))) = {(Some ''GBR'', 2000)}"
    by (simp only: example_merge_keys) simp
  from merge_datasets_inner_join [of "harmonize_energy example_energy" example_gdp
      "harmonize_co2 example_co2"]
  have "set (map key (harmonize_energy example_energy)) \<inter> set (map key example_gdp) \<inter>
     set (map key (harmonize_co2 example_co2)) = {(Some ''GBR'', 2000)}"
    unfolding 1 by simp
  moreover have "(Some ''FRA'', 2000) \<in> set (map key (harmonize_energy example_energy)) \<inter> set (map key example_gdp)"
    and "(Some ''DEU'', 2000) \<in> set (map key (harmonize_co2 example_co2))"
    by (simp_all add: example_tables harmonize_energy_def harmonize_co2_def key_def)
  ultimately show ?thesis using 1 by (simp only: simp_thms)
qed

text \<open>
  The claim C9 as stated fails: the CO2 row without region code is still there after
  harmonization.
\<close>

theorem harmonize_co2_keeps_null_code:
  "map key (harmonize_co2 example_co2) = [(Some ''GBR'', 2000), (Some ''DEU'', 2000), (None, 2000)]"
  by (simp add: example_tables harmonize_co2_def key_def)

text \<open>
  C9 (as amended). Harmonization keeps exactly the CO2 rows with year at least 1990, and
  exactly the energy rows with year at least 1990 and a region code. A CO2 row without
  region code passes harmonization; it never reaches the merged table, whose rows all have a
  region code and a year of at least 1990.
\<close>

theorem harmonization_cutoff_and_key:
  "harmonize_co2 co2_df = filter (\<lambda>r. 1990 \<le> year r) co2_df \<and>
   harmonize_energy energy_df = filter (\<lambda>r. 1990 \<le> year r \<and> iso_code r \<noteq> None) energy_df \<and>
   (\<forall>r \<in> set (harmonize_co2 co2_df). 1990 \<le> year r) \<and>
   (\<forall>r \<in> set (harmonize_energy energy_df). 1990 \<le> year r \<and> iso_code r \<noteq> None) \<and>
   (\<forall>x \<in> set (merge_datasets (harmonize_energy energy_df) gdp_df (harmonize_co2 co2_df)).
      1990 \<le> year x \<and> iso_code x \<noteq> None)"
proof (intro conjI ballI)
  show "harmonize_co2 co2_df = filter (\<lambda>r. 1990 \<le> year r) co2_df"
    by (simp add: harmonize_co2_def)
  show "harmonize_energy energy_df = filter (\<lambda>r. 1990 \<le> year r \<and> iso_code r \<noteq> None) energy_df"
    by (simp add: harmonize_energy_def conj_commute)
next
  fix r assume "r \<in> set (harmonize_co2 co2_df)"
  then show "1990 \<le> year r" by (simp add: harmonize_co2_def)
next
  fix r assume r: "r \<in> set (harmonize_energy energy_df)"
  then show "1990 \<le> year r" by (simp add: harmonize_energy_def)
  from r show "iso_code r \<noteq> None" by (simp add: harmonize_energy_def)
next
  fix x assume "x \<in> set (merge_datasets (harmonize_energy energy_df) gdp_df (harmonize_co2 co2_df))"
  then obtain e g c where e: "e \<in> set (harmonize_energy energy_df)"
    and x: "x = with_co2 (with_gdp e g) c"
    unfolding merge_datasets_rows by blast
  have "key x = key e" unfolding x using merged_row_columns [of e g c] by simp
  then have k: "year x = year e" "iso_code x = iso_code e" by (simp_all add: key_def)
  from e have "1990 \<le> year e" "iso_code e \<noteq> None" by (simp_all add: harmonize_energy_def)
  then show "1990 \<le> year x" "iso_code x \<noteq> None" using k by simp_all
qed

theorem harmonization_cutoff_and_key_witness:
  "map key (harmonize_energy example_energy) = [(Some ''GBR'', 2000), (Some ''FRA'', 2000)] \<and>
   map key (harmonize_co2 example_co2) = [(Some ''GBR'', 2000), (Some ''DEU'', 2000), (None, 2000)] \<and>
   harmonize_co2 example_co2 = filter (\<lambda>r. 1990 \<le> year r) example_co2 \<and>
   map key (merge_datasets (harmonize_energy example_energy) example_gdp (harmonize_co2 example_co2)) =
     [(Some ''GBR'', 2000)]"
proof -
  have "map key (harmonize_energy example_energy) = [(Some ''GBR'', 2000), (Some ''FRA'', 2000)]"
    by (simp add: example_tables harmonize_energy_def key_def)
  moreover have "map key (harmonize_co2 example_co2) =
      [(Some ''GBR'', 2000), (Some ''DEU'', 2000), (None, 2000)]"
    by (simp add: example_tables harmonize_co2_def key_def)
  moreover from harmonization_cutoff_and_key [of example_co2 example_energy example_gdp]
  have "harmonize_co2 example_co2 = filter (\<lambda>r. 1990 \<le> year r) example_co2" by blast
  ultimately show ?thesis using example_merge_keys by (simp only: simp_thms)
qed

section \<open>The GDP source and its fallback\<close>

lemma fallback_gdp_elementwise:
  "fallback_gdp rnd energy_df =
     map (\<lambda>r. \<lparr> iso_code = iso_code r, year = year r,
                gdp_row.gdp_percap = float_div rnd (the (gdp r)) (the (population r)) \<rparr>)
       (filter (\<lambda>r. iso_code r \<noteq> None \<and> gdp r \<noteq> None \<and> population r \<noteq> None) energy_df)"
proof (induction energy_df)
  case Nil
  then show ?case by (simp add: fallback_gdp_def)
next
  case (Cons r rest)
  have "fallback_gdp rnd (r # rest) =
      (case (iso_code r, gdp r, population r) of
         (Some c, Some g, Some p) \<Rightarrow>
            [\<lparr> iso_code = Some c, year = year r, gdp_row.gdp_percap = float_div rnd g p \<rparr>]
       | _ \<Rightarrow> []) @ fallback_gdp rnd rest"
    by (simp add: fallback_gdp_def)
  then show ?case using Cons.IH by (auto split: option.splits)
qed

lemma binary64_50: "binary64 50 = 50"
  using binary64_in_binade [of 5 50] by (simp add: pow2_def rint_def Let_def)

text \<open>
  C6. When the World Bank request returns, the result is the primary table and no warning
  is shown. When it raises, one warning is shown and the result is the fallback: one
  row for every energy row in which iso\_code, gdp and population are all present, in
  order, whose gdp\_percap is the float64 quotient of that row's gdp by its population (the
  rounded exact quotient when the population is not zero). A warning is shown exactly when
  the request raised, and both results have the columns iso\_code, year, gdp\_percap.
\<close>

theorem fetch_gdp_or_fallback_paths:
  "fetch_gdp_or_fallback rnd (Inr wb) energy_df =
     ([], \<lparr> columns = [''iso_code'', ''year'', ''gdp_percap''], rows = primary_gdp wb \<rparr>) \<and>
   fetch_gdp_or_fallback rnd (Inl e) energy_df =
     ([fallback_warning e],
      \<lparr> columns = [''iso_code'', ''year'', ''gdp_percap''],
        rows = map (\<lambda>r. \<lparr> iso_code = iso_code r, year = year r,
                            gdp_row.gdp_percap = float_div rnd (the (gdp r)) (the (population r)) \<rparr>)
                 (filter (\<lambda>r. iso_code r \<noteq> None \<and> gdp r \<noteq> None \<and> population r \<noteq> None)
                    energy_df) \<rparr>) \<and>
   (fst (fetch_gdp_or_fallback rnd response energy_df) \<noteq> [] \<longleftrightarrow> isl response) \<and>
   columns (snd (fetch_gdp_or_fallback rnd response energy_df)) =
     [''iso_code'', ''year'', ''gdp_percap''] \<and>
   (\<forall>g p. p \<noteq> 0 \<longrightarrow> float_div rnd g p = Fin (rnd (g / p)))"
proof (intro conjI allI impI)
  show "fetch_gdp_or_fallback rnd (Inr wb) energy_df =
     ([], \<lparr> columns = [''iso_code'', ''year'', ''gdp_percap''], rows = primary_gdp wb \<rparr>)"
    by (simp add: fetch_gdp_or_fallback_def gdp_columns_def)
  show "fetch_gdp_or_fallback rnd (Inl e) energy_df =
     ([fallback_warning e],
      \<lparr> columns = [''iso_code'', ''year'', ''gdp_percap''],
        rows = map (\<lambda>r. \<lparr> iso_code = iso_code r, year = year r,
                            gdp_row.gdp_percap = float_div rnd (the (gdp r)) (the (population r)) \<rparr>)
                 (filter (\<lambda>r. iso_code r \<noteq> None \<and> gdp r \<noteq> None \<and> population r \<noteq> None)
                    energy_df) \<rparr>)"
    by (simp add: fetch_gdp_or_fallback_def gdp_columns_def fallback_gdp_elementwise)
  show "fst (fetch_gdp_or_fallback rnd response energy_df) \<noteq> [] \<longleftrightarrow> isl response"
    by (cases response) (simp_all add: fetch_gdp_or_fallback_def)
  show "columns (snd (fetch_gdp_or_fallback rnd response energy_df)) =
     [''iso_code'', ''year'', ''gdp_percap'']"
    by (cases response) (simp_all add: fetch_gdp_or_fallback_def gdp_columns_def)
next
  fix g p :: real assume "p \<noteq> 0"
  then show "float_div rnd g p = Fin (rnd (g / p))" by (simp add: float_div_def)
qed

theorem fetch_gdp_or_fallback_paths_witness:
  "(60::real) \<noteq> 0 \<and> float_div binary64 3000 60 = Fin 50 \<and>
   fetch_gdp_or_fallback binary64 (Inl ''timed out'') (harmonize_energy example_energy) =
     ([fallback_warning ''timed out''],
      \<lparr> columns = [''iso_code'', ''year'', ''gdp_percap''],
        rows = [\<lparr> iso_code = Some ''GBR'', year = 2000, gdp_row.gdp_percap = Fin 50 \<rparr>,
                \<lparr> iso_code = Some ''FRA'', year = 2000, gdp_row.gdp_percap = PosInf \<rparr>] \<rparr>)"
proof -
  from fetch_gdp_or_fallback_paths [of binary64 "[]" "harmonize_energy example_energy" "''timed out''" "Inl ''timed out''"]
  have d: "float_div binary64 3000 60 = Fin (binary64 (3000 / 60))"
    and f: "fetch_gdp_or_fallback binary64 (Inl ''timed out'') (harmonize_energy example_energy) =
     ([fallback_warning ''timed out''],
      \<lparr> columns = [''iso_code'', ''year'', ''gdp_percap''],
        rows = map (\<lambda>r. \<lparr> iso_code = iso_code r, year = year r,
                            gdp_row.gdp_percap = float_div binary64 (the (gdp r)) (the (population r)) \<rparr>)
                 (filter (\<lambda>r. iso_code r \<noteq> None \<and> gdp r \<noteq> None \<and> population r \<noteq> None)
                    (harmonize_energy example_energy)) \<rparr>)"
    by simp_all
  have "float_div binary64 3000 60 = Fin 50" using d by (simp add: binary64_50)
  moreover have "map (\<lambda>r. \<lparr> iso_code = iso_code r, year = year r,
                            gdp_row.gdp_percap = float_div binary64 (the (gdp r)) (the (population r)) \<rparr>)
                 (filter (\<lambda>r. iso_code r \<noteq> None \<and> gdp r \<noteq> None \<and> population r \<noteq> None)
                    (harmonize_energy example_energy)) =
      [\<lparr> iso_code = Some ''GBR'', year = 2000, gdp_row.gdp_percap = Fin 50 \<rparr>,
       \<lparr> iso_code = Some ''FRA'', year = 2000, gdp_row.gdp_percap = PosInf \<rparr>]"
    by (simp add: example_tables harmonize_energy_def float_div_def binary64_50)
  ultimately show ?thesis using f by simp
qed

section \<open>The electricity mix\<close>

lemma filter_eq_singleton: "distinct xs \<Longrightarrow> y \<in> set xs \<Longrightarrow> filter (\<lambda>x. x = y) xs = [y]"
  by (induction xs) (auto simp: filter_empty_conv)

lemma distinct_pivot_index: "distinct (pivot_index df)"
  by (simp add: pivot_index_def)


lemma share_of_keyed_map:
  "s \<in> set cols \<Longrightarrow> share_of (map (\<lambda>k. (k, f k)) cols) s = f s"
  by (simp add: share_of_def map_of_map_restrict)

lemma normalise_pivot_row:
  "normalise rnd fsum (pivot_row fsum df y) =
     map (\<lambda>s. (s, case pivot_cell fsum df y s of
                     None \<Rightarrow> NaN
                   | Some v \<Rightarrow> float_div rnd v (row_sum fsum (pivot_row fsum df y))))
       (pivot_columns df)"
proof -
  have "normalise rnd fsum (pivot_row fsum df y) =
      map (\<lambda>(s, c). (s, case c of None \<Rightarrow> NaN
                         | Some v \<Rightarrow> float_div rnd v (row_sum fsum (pivot_row fsum df y))))
        (map (\<lambda>s. (s, pivot_cell fsum df y s)) (pivot_columns df))"
    unfolding normalise_def by (simp only: pivot_row_def [symmetric])
  then show ?thesis by (simp add: comp_def)
qed

lemma melt_shares_year:
  assumes "distinct idx" and "y0 \<in> set idx"
  shows "filter (\<lambda>r. mix_row.year r = y0) (melt_shares cols (map (\<lambda>y. (y, N y)) idx)) =
     map (\<lambda>s. \<lparr> mix_row.year = y0, mix_row.source = s, share = share_of (N y0) s \<rparr>) cols"
proof -
  have inner: "filter (\<lambda>r. mix_row.year r = y0)
        (map (\<lambda>(y, r). \<lparr> mix_row.year = y, mix_row.source = s, share = share_of r s \<rparr>)
           (map (\<lambda>y. (y, N y)) idx)) =
      [\<lparr> mix_row.year = y0, mix_row.source = s, share = share_of (N y0) s \<rparr>]" for s
  proof -
    have "filter (\<lambda>r. mix_row.year r = y0)
        (map (\<lambda>(y, r). \<lparr> mix_row.year = y, mix_row.source = s, share = share_of r s \<rparr>)
           (map (\<lambda>y. (y, N y)) idx)) =
      map (\<lambda>y. \<lparr> mix_row.year = y, mix_row.source = s, share = share_of (N y) s \<rparr>)
        (filter (\<lambda>y. y = y0) idx)"
      by (simp add: filter_map comp_def)
    then show ?thesis using filter_eq_singleton [OF assms] by simp
  qed
  show ?thesis
    unfolding melt_shares_def by (induction cols) (simp_all add: inner del: map_map)
qed

lemma mix_year:
  assumes "df = energy_long_f energy_long selected year_range" and "y \<in> set (pivot_index df)"
  shows "map (\<lambda>r. (mix_row.source r, share r))
       (filter (\<lambda>r. mix_row.year r = y) (mix rnd fsum energy_long selected year_range)) =
     filter (\<lambda>(s, x). x \<noteq> NaN) (normalise rnd fsum (pivot_row fsum df y))"
proof -
  let ?N = "\<lambda>y. normalise rnd fsum (pivot_row fsum df y)"
  let ?f = "\<lambda>s. case pivot_cell fsum df y s of
                     None \<Rightarrow> NaN
                   | Some v \<Rightarrow> float_div rnd v (row_sum fsum (pivot_row fsum df y))"
  have shares: "map (\<lambda>(y, r). (y, normalise rnd fsum r)) (pivot_table fsum df) =
      map (\<lambda>y. (y, ?N y)) (pivot_index df)"
    by (simp add: pivot_table_def comp_def)
  have "filter (\<lambda>r. mix_row.year r = y) (mix rnd fsum energy_long selected year_range) =
      filter (\<lambda>r. share r \<noteq> NaN)
        (filter (\<lambda>r. mix_row.year r = y)
           (melt_shares (pivot_columns df) (map (\<lambda>y. (y, ?N y)) (pivot_index df))))"
    unfolding mix_def Let_def assms(1) [symmetric] shares by (simp add: conj_commute)
  also have "\<dots> = filter (\<lambda>r. share r \<noteq> NaN)
      (map (\<lambda>s. \<lparr> mix_row.year = y, mix_row.source = s, share = share_of (?N y) s \<rparr>)
         (pivot_columns df))"
    by (simp only: melt_shares_year [OF distinct_pivot_index assms(2)])
  finally have "map (\<lambda>r. (mix_row.source r, share r))
       (filter (\<lambda>r. mix_row.year r = y) (mix rnd fsum energy_long selected year_range)) =
     filter (\<lambda>(s, x). x \<noteq> NaN) (map (\<lambda>s. (s, share_of (?N y) s)) (pivot_columns df))"
    by (simp add: filter_map comp_def)
  moreover have "map (\<lambda>s. (s, share_of (?N y) s)) (pivot_columns df) = ?N y"
  proof -
    have "map (\<lambda>s. (s, share_of (?N y) s)) (pivot_columns df) = map (\<lambda>s. (s, ?f s)) (pivot_columns df)"
      unfolding normalise_pivot_row by (simp add: share_of_keyed_map)
    then show ?thesis unfolding normalise_pivot_row .
  qed
  ultimately show ?thesis by simp
qed

lemma mix_no_NaN: "\<forall>r \<in> set (mix rnd fsum energy_long selected year_range). share r \<noteq> NaN"
  by (simp add: mix_def Let_def)

lemma normalise_zero_sum:
  assumes "row_sum fsum r = 0"
  shows "normalise rnd fsum r =
     map (\<lambda>(s, c). (s, case c of
                        None \<Rightarrow> NaN
                      | Some v \<Rightarrow> if v = 0 then NaN else if 0 < v then PosInf else NegInf)) r"
  unfolding normalise_def assms
  by (rule map_cong) (auto simp: float_div_def split: option.splits)

lemma filter_zero_sum_shares:
  "filter (\<lambda>(s, x). x \<noteq> NaN)
     (map (\<lambda>(s, c). (s, case c of
                        None \<Rightarrow> NaN
                      | Some v \<Rightarrow> if v = 0 then NaN else if 0 < v then PosInf else NegInf)) r) =
   concat (map (\<lambda>(s, c). case c of
                  None \<Rightarrow> []
                | Some v \<Rightarrow> if v = 0 then [] else [(s, if 0 < v then PosInf else NegInf)]) r)"
  by (induction r) (auto split: option.splits if_splits)

lemma coal_before_gas:
  "''coal'' < ''gas''" "\<not> ''gas'' \<le> ''coal''" "''coal'' \<le> ''gas''"
  "''gas'' < ''hydro''" "\<not> ''hydro'' \<le> ''gas''" "''gas'' \<le> ''hydro''"
  "''coal'' < ''hydro''" "\<not> ''hydro'' \<le> ''coal''" "''coal'' \<le> ''hydro''"
  by (simp_all add: less_char_def less_eq_char_def)

lemma binary64_units: "binary64 1 = 1" "binary64 (- 1) = - 1" "binary64 0 = 0"
proof -
  show "binary64 1 = 1"
    using binary64_in_binade [of 0 1] by (simp add: pow2_def rint_def Let_def)
  show "binary64 (- 1) = - 1"
    using binary64_in_binade [of 0 "- 1"] by (simp add: pow2_def rint_def Let_def)
  show "binary64 0 = 0" by (simp add: binary64_def)
qed

lemmas mix_evaluation =
  mix_def Let_def melt_shares_def share_of_def normalise_def row_sum_def pivot_table_def
  pivot_row_def pivot_cell_def pivot_index_def pivot_columns_def present_def energy_long_f_def
  long_energy_def melt_def value_vars_def long_of_def float_div_def float_sum_def atlantis_def
  coal_before_gas binary64_units

text \<open>
  The claim C8 as stated fails: for a year whose two values are both zero (sum zero) the
  output has no row at all, so no missing share reaches it; and for a year whose values
  are 1 and -1 (sum zero) the shares are the two infinities, not missing values.
\<close>

theorem zero_sum_shares_dropped_or_infinite:
  "mix binary64 (float_sum binary64) (long_energy zero_sum_table) ''Atlantis'' (1990, 2020) = [] \<and>
   map (\<lambda>r. (mix_row.source r, share r))
     (mix binary64 (float_sum binary64) (long_energy cancelling_table) ''Atlantis'' (1990, 2020)) =
     [(''coal'', PosInf), (''gas'', NegInf)]"
  by (simp add: mix_evaluation zero_sum_table_def cancelling_table_def)

text \<open>
  C8 (as amended). In a year of the selection whose row sum is zero, the normalization gives
  a missing share (NaN) to every source whose summed value is zero or missing, and an
  infinite share, with the sign of the value, to every other source; no share is replaced
  by zero and nothing raises. The final \<^verbatim>\<open>dropna()\<close> then removes the rows with a missing
  share: of that year, the output holds the rows of the sources with a non-zero value only,
  and no row of the output has a missing share.
\<close>

theorem zero_sum_group_shares:
  assumes "df = energy_long_f energy_long selected year_range"
    and "y \<in> set (pivot_index df)"
    and "row_sum fsum (pivot_row fsum df y) = 0"
  shows "normalise rnd fsum (pivot_row fsum df y) =
       map (\<lambda>(s, c). (s, case c of
                          None \<Rightarrow> NaN
                        | Some v \<Rightarrow> if v = 0 then NaN else if 0 < v then PosInf else NegInf))
         (pivot_row fsum df y) \<and>
     map (\<lambda>r. (mix_row.source r, share r))
       (filter (\<lambda>r. mix_row.year r = y) (mix rnd fsum energy_long selected year_range)) =
       concat (map (\<lambda>(s, c). case c of
                      None \<Rightarrow> []
                    | Some v \<Rightarrow> if v = 0 then [] else [(s, if 0 < v then PosInf else NegInf)])
                 (pivot_row fsum df y)) \<and>
     (\<forall>r \<in> set (mix rnd fsum energy_long selected year_range). share r \<noteq> NaN)"
proof (intro conjI)
  show n: "normalise rnd fsum (pivot_row fsum df y) =
       map (\<lambda>(s, c). (s, case c of
                          None \<Rightarrow> NaN
                        | Some v \<Rightarrow> if v = 0 then NaN else if 0 < v then PosInf else NegInf))
         (pivot_row fsum df y)"
    by (rule normalise_zero_sum [OF assms(3)])
  show "map (\<lambda>r. (mix_row.source r, share r))
       (filter (\<lambda>r. mix_row.year r = y) (mix rnd fsum energy_long selected year_range)) =
       concat (map (\<lambda>(s, c). case c of
                      None \<Rightarrow> []
                    | Some v \<Rightarrow> if v = 0 then [] else [(s, if 0 < v then PosInf else NegInf)])
                 (pivot_row fsum df y))"
    unfolding mix_year [OF assms(1,2)] n by (rule filter_zero_sum_shares)
  show "\<forall>r \<in> set (mix rnd fsum energy_long selected year_range). share r \<noteq> NaN"
    by (rule mix_no_NaN)
qed

theorem zero_sum_group_shares_witness:
  "2000 \<in> set (pivot_index (energy_long_f (long_energy zero_sum_table) ''Atlantis'' (1990, 2020))) \<and>
   row_sum (float_sum binary64)
     (pivot_row (float_sum binary64)
        (energy_long_f (long_energy zero_sum_table) ''Atlantis'' (1990, 2020)) 2000) = 0 \<and>
   normalise binary64 (float_sum binary64)
     (pivot_row (float_sum binary64)
        (energy_long_f (long_energy zero_sum_table) ''Atlantis'' (1990, 2020)) 2000) =
     [(''coal'', NaN), (''gas'', NaN)] \<and>
   filter (\<lambda>r. mix_row.year r = 2000)
     (mix binary64 (float_sum binary64) (long_energy zero_sum_table) ''Atlantis'' (1990, 2020)) = []"
proof -
  let ?df = "energy_long_f (long_energy zero_sum_table) ''Atlantis'' (1990, 2020)"
  have y: "2000 \<in> set (pivot_index ?df)"
    by (simp add: mix_evaluation zero_sum_table_def)
  have z: "row_sum (float_sum binary64) (pivot_row (float_sum binary64) ?df 2000) = 0"
    by (simp add: mix_evaluation zero_sum_table_def)
  have r: "pivot_row (float_sum binary64) ?df 2000 = [(''coal'', Some 0), (''gas'', Some 0)]"
    by (simp add: mix_evaluation zero_sum_table_def)
  from zero_sum_group_shares [OF refl y z, of binary64]
  have "normalise binary64 (float_sum binary64) (pivot_row (float_sum binary64) ?df 2000) =
      [(''coal'', NaN), (''gas'', NaN)]"
    and "map (\<lambda>r. (mix_row.source r, share r))
       (filter (\<lambda>r. mix_row.year r = 2000)
          (mix binary64 (float_sum binary64) (long_energy zero_sum_table) ''Atlantis'' (1990, 2020))) = []"
    unfolding r by simp_all
  then show ?thesis using y z by simp
qed

section \<open>The sum of the shares\<close>





















end
